theory Spec2Isabelle
  imports Main "HOL-Library.Word"
begin

section \<open>Bearer-token authentication middleware\<close>

text \<open>
  A shallow embedding of the Go package \<^verbatim>\<open>backend/middleware\<close>:
  \<^verbatim>\<open>helper.go\<close> (bearer extraction), \<^verbatim>\<open>jwt.go\<close> (key-set loading, token
  verification, the JWT gate) and \<^verbatim>\<open>tokenintrospect.go\<close> (the introspection client and
  its gate). Go strings are byte strings and are modelled by \<^typ>\<open>string\<close>; Go errors
  are values of error datatypes, one constructor for each \<^verbatim>\<open>fmt.Errorf\<close> of the source.
\<close>

subsection \<open>Errors\<close>

text \<open>The signing methods that the token library registers, by their \<^verbatim>\<open>alg\<close> name.\<close>

datatype signing_method =
    RS256 | RS384 | RS512
  | PS256 | PS384 | PS512
  | HS256 | HS384 | HS512
  | ES256 | ES384 | ES512
  | EdDSA | alg_none

text \<open>The three errors that the key function of \<^verbatim>\<open>verifyToken\<close> returns.\<close>

datatype keyfunc_error =
    UnexpectedSigningMethod signing_method
  | KidHeaderNotFound
  | PublicKeyNotFound string

datatype claim_error = ErrTokenExpired | ErrTokenNotValidYet

text \<open>What the token parser reports before the key function runs.\<close>

datatype parse_error = ErrTokenMalformed string | ErrSigningMethodUnavailable string

datatype jwt_error =
    ErrParse parse_error
  | ErrKeyfunc keyfunc_error
  | ErrTokenSignatureInvalid
  | ErrTokenInvalidClaims "claim_error list"

text \<open>The errors of \<^verbatim>\<open>verifyToken\<close>, in the order of the source.\<close>

datatype verify_error =
    FailedToParseToken jwt_error
  | InvalidTokenClaims
  | InvalidIssuer string string
  | TokenHasExpired
  | InvalidAudience

text \<open>The errors of \<^verbatim>\<open>introspectToken\<close>, in the order of the source.\<close>

datatype introspect_error =
    FailedToCreateRequest string
  | FailedToIntrospect string
  | FailedToReadResponse string
  | IntrospectionFailedWithStatus int string
  | FailedToParseResponse string

subsection \<open>The request context\<close>

text \<open>
  A value of a response body (\<^verbatim>\<open>gin.H\<close>): a literal string, or the text of an error
  (\<^verbatim>\<open>err.Error()\<close>), kept as the error it renders.
\<close>

datatype body_value =
    Text string
  | VerifyErrorText verify_error
  | IntrospectErrorText introspect_error

text \<open>
  The part of \<^verbatim>\<open>gin.Context\<close> that the middleware reads and writes: the
  \<^verbatim>\<open>Authorization\<close> request header, the response written by \<^verbatim>\<open>c.JSON\<close>, the abort
  flag set by \<^verbatim>\<open>c.Abort()\<close>, whether \<^verbatim>\<open>c.Next()\<close> was called, and the key/value store
  filled by \<^verbatim>\<open>c.Set\<close>.
\<close>

record gin_Context =
  Authorization :: "string option"
  written_status :: "int option"
  written_body :: "(string \<times> body_value) list"
  aborted :: bool
  next_called :: bool
  Keys :: "string \<rightharpoonup> string"

definition GetHeader_Authorization :: "gin_Context \<Rightarrow> string" where
  "GetHeader_Authorization c = (case Authorization c of None \<Rightarrow> [] | Some v \<Rightarrow> v)"

definition JSON :: "int \<Rightarrow> (string \<times> body_value) list \<Rightarrow> gin_Context \<Rightarrow> gin_Context" where
  "JSON code obj c = c\<lparr>written_status := Some code, written_body := obj\<rparr>"

definition Abort :: "gin_Context \<Rightarrow> gin_Context" where
  "Abort c = c\<lparr>aborted := True\<rparr>"

definition Next :: "gin_Context \<Rightarrow> gin_Context" where
  "Next c = c\<lparr>next_called := True\<rparr>"

definition Set_key :: "string \<Rightarrow> string \<Rightarrow> gin_Context \<Rightarrow> gin_Context" where
  "Set_key k v c = c\<lparr>Keys := (Keys c)(k \<mapsto> v)\<rparr>"

text \<open>
  The downstream handler runs when the gate called \<^verbatim>\<open>c.Next()\<close>, or returned without
  aborting (the router then goes on with the chain).
\<close>

definition proceeds :: "gin_Context \<Rightarrow> bool" where
  "proceeds c = (next_called c \<or> \<not> aborted c)"

definition StatusUnauthorized :: int where
  "StatusUnauthorized = 401"

definition StatusInternalServerError :: int where
  "StatusInternalServerError = 500"

definition StatusOK :: int where
  "StatusOK = 200"

subsection \<open>helper.go\<close>

text \<open>
  \<^verbatim>\<open>strings.Split(s, sep)\<close> for a separator of one byte: the substrings between
  consecutive separators, \<open>n + 1\<close> of them for \<open>n\<close> separators, empty ones included.
\<close>

fun strings_Split :: "string \<Rightarrow> char \<Rightarrow> string list" where
  "strings_Split [] sep = [[]]"
| "strings_Split (c # cs) sep =
     (case strings_Split cs sep of
        [] \<Rightarrow> [[c]]
      | p # ps \<Rightarrow> if c = sep then [] # p # ps else (c # p) # ps)"

definition missing_header_response :: "(string \<times> body_value) list" where
  "missing_header_response = [(''error'', Text ''Authorization header required'')]"

definition malformed_header_response :: "(string \<times> body_value) list" where
  "malformed_header_response =
     [(''error'', Text ''Invalid authorization header format. Expected: Bearer <token>'')]"

text \<open>
  \<^verbatim>\<open>extractBearerToken\<close> returns the token and the success flag; the context is returned
  too, since the failure branches write the response and abort.
\<close>

definition extractBearerToken :: "gin_Context \<Rightarrow> gin_Context \<times> string \<times> bool" where
  "extractBearerToken c =
     (let authHeader = GetHeader_Authorization c in
      if authHeader = [] then
        (Abort (JSON StatusUnauthorized missing_header_response c), [], False)
      else
        let parts = strings_Split authHeader CHR '' '' in
        if length parts \<noteq> 2 \<or> parts ! 0 \<noteq> ''Bearer'' then
          (Abort (JSON StatusUnauthorized malformed_header_response c), [], False)
        else (c, parts ! 1, True))"

text \<open>The context of a request as its first handler receives it.\<close>

definition new_context :: "string option \<Rightarrow> gin_Context" where
  "new_context h =
     \<lparr>Authorization = h, written_status = None, written_body = [], aborted = False,
      next_called = False, Keys = Map.empty\<rparr>"

text \<open>
  The words of the specification, for comparison with \<^verbatim>\<open>strings.Split\<close>: a header
  splits into the parts \<open>ps\<close> when it is these parts with one space between each two, and
  no part holds a space.
\<close>

fun strings_Join :: "string list \<Rightarrow> char \<Rightarrow> string" where
  "strings_Join [] sep = []"
| "strings_Join [p] sep = p"
| "strings_Join (p # q # ps) sep = p @ sep # strings_Join (q # ps) sep"

definition space_separated_parts :: "string \<Rightarrow> string list \<Rightarrow> bool" where
  "space_separated_parts h ps =
     (ps \<noteq> [] \<and> h = strings_Join ps CHR '' '' \<and> list_all (\<lambda>p. CHR '' '' \<notin> set p) ps)"

text \<open>
  The same wording with every whitespace character taken as a separator: the parts of a
  header between consecutive whitespace characters (space, tab, line feed, carriage
  return).
\<close>

definition is_whitespace :: "char \<Rightarrow> bool" where
  "is_whitespace ch = (ch = CHR '' '' \<or> ch = CHR 0x09 \<or> ch = CHR 0x0A \<or> ch = CHR 0x0D)"

fun whitespace_separated_parts :: "string \<Rightarrow> string list" where
  "whitespace_separated_parts [] = [[]]"
| "whitespace_separated_parts (c # cs) =
     (case whitespace_separated_parts cs of
        [] \<Rightarrow> [[c]]
      | p # ps \<Rightarrow> if is_whitespace c then [] # p # ps else (c # p) # ps)"

subsection \<open>config.go\<close>

definition keycloakURL :: string where
  "keycloakURL = ''http://localhost:8080/realms/users''"

definition jwksURL :: string where
  "jwksURL = keycloakURL @ ''/protocol/openid-connect/certs''"

definition keycloakIntrospectURL :: string where
  "keycloakIntrospectURL = keycloakURL @ ''/protocol/openid-connect/token/introspect''"

definition serverClientID :: string where
  "serverClientID = ''36601c4e-2027-41f9-b02e-c6a06e20d171''"

definition serverClientSecret :: string where
  "serverClientSecret = ''TPuXmlD9X4nzLb5toUTi6MnmWUtoT88U''"

subsection \<open>HTTP exchanges\<close>

text \<open>
  A response of the identity provider: its status code, and what \<^verbatim>\<open>io.ReadAll\<close> gives on
  its body (the bytes, or a read error).
\<close>

record http_Response =
  StatusCode :: int
  Body :: "string + string"

text \<open>
  A request made by \<^verbatim>\<open>http.NewRequest\<close>; its body is kept as the form values whose
  encoding (\<^verbatim>\<open>url.Values.Encode\<close>) is sent.
\<close>

record http_Request =
  req_Method :: string
  req_URL :: string
  req_Form :: "(string \<times> string) list"
  req_Header :: "(string \<times> string) list"

definition Header_Set :: "string \<Rightarrow> string \<Rightarrow> http_Request \<Rightarrow> http_Request" where
  "Header_Set k v req = req\<lparr>req_Header := (k, v) # filter (\<lambda>kv. fst kv \<noteq> k) (req_Header req)\<rparr>"

subsection \<open>jwt.go: data structures\<close>

record JWK =
  Kid :: string
  Kty :: string
  Alg :: string
  Use :: string
  N :: string
  E :: string

record JWKS =
  jwks_Keys :: "JWK list"

text \<open>\<^verbatim>\<open>rsa.PublicKey\<close>: the modulus, a big integer, and the exponent, a Go \<^verbatim>\<open>int\<close>.\<close>

record rsa_PublicKey =
  pub_N :: nat
  pub_E :: int

text \<open>Instants of time, as a count of clock ticks.\<close>

type_synonym time = int

text \<open>\<^verbatim>\<open>CustomClaims\<close>, with the fields of the embedded \<^verbatim>\<open>jwt.RegisteredClaims\<close> first.\<close>

record CustomClaims =
  Issuer :: string
  Subject :: string
  Audience :: "string list"
  ExpiresAt :: "time option"
  NotBefore :: "time option"
  IssuedAt :: "time option"
  ID :: string
  PreferredUsername :: string
  Email :: string
  Name :: string

text \<open>
  A value of the token header: a JSON string, or any other JSON value (the type assertion
  \<^verbatim>\<open>.(string)\<close> fails on all of these alike).
\<close>

datatype header_value = StringValue string | NonStringValue

text \<open>
  \<^verbatim>\<open>jwt.Token\<close>: the signing method named by the \<^verbatim>\<open>alg\<close> header, the \<^verbatim>\<open>kid\<close>
  header (absent: \<open>None\<close>), the claims, the signed text (the first two segments), the
  decoded signature and the validity flag.
\<close>

record jwt_Token =
  Raw :: string
  Method :: signing_method
  Header_kid :: "header_value option"
  Claims :: CustomClaims
  SigningString :: string
  Signature :: "8 word list"
  Valid :: bool

text \<open>
  What \<^verbatim>\<open>verifyToken\<close> takes from outside the package: the token library's decoding of
  the three segments (\<^verbatim>\<open>ParseUnverified\<close>), the signature check of a signing method
  (\<^verbatim>\<open>Method.Verify\<close>), the clock reading of the library's claims validator and the clock
  reading of \<^verbatim>\<open>verifyToken\<close> itself (\<^verbatim>\<open>time.Now()\<close>).
\<close>

record jwt_env =
  ParseUnverified :: "string \<Rightarrow> parse_error + jwt_Token"
  Verify :: "signing_method \<Rightarrow> string \<Rightarrow> 8 word list \<Rightarrow> rsa_PublicKey \<Rightarrow> bool"
  validator_Now :: time
  time_Now :: time

text \<open>
  What key loading takes from outside the package: \<^verbatim>\<open>http.Get\<close>, \<^verbatim>\<open>json.Unmarshal\<close>
  into a \<^verbatim>\<open>JWKS\<close> and \<^verbatim>\<open>base64.RawURLEncoding.DecodeString\<close>.
\<close>

record jwks_env =
  http_Get :: "string \<Rightarrow> string + http_Response"
  Unmarshal_JWKS :: "string \<Rightarrow> string + JWKS"
  DecodeString :: "string \<Rightarrow> string + 8 word list"

datatype fetch_error =
    FailedToFetchJWKS string
  | FailedToFetchJWKSStatus int
  | FailedToReadJWKS string
  | FailedToParseJWKS string

datatype convert_error = FailedToDecodeModulus string | FailedToDecodeExponent string

datatype load_error = FailedToFetch fetch_error | FailedToConvert convert_error

subsection \<open>jwt.go: loading the key set\<close>

definition fetchJWKS :: "jwks_env \<Rightarrow> fetch_error + JWKS" where
  "fetchJWKS env =
     (case http_Get env jwksURL of
        Inl err \<Rightarrow> Inl (FailedToFetchJWKS err)
      | Inr resp \<Rightarrow>
          if StatusCode resp \<noteq> StatusOK then Inl (FailedToFetchJWKSStatus (StatusCode resp))
          else
            (case Body resp of
               Inl err \<Rightarrow> Inl (FailedToReadJWKS err)
             | Inr body \<Rightarrow>
                 (case Unmarshal_JWKS env body of
                    Inl err \<Rightarrow> Inl (FailedToParseJWKS err)
                  | Inr jwks \<Rightarrow> Inr jwks)))"

text \<open>\<^verbatim>\<open>big.Int.SetBytes\<close>: the bytes as a big-endian unsigned integer.\<close>

definition SetBytes :: "8 word list \<Rightarrow> nat" where
  "SetBytes bs = foldl (\<lambda>acc b. acc * 256 + unat b) 0 bs"

text \<open>\<^verbatim>\<open>int(e.Int64())\<close>: the low 64 bits of the integer, read as a signed number.\<close>

definition Int64 :: "nat \<Rightarrow> int" where
  "Int64 x = sint (word_of_nat x :: 64 word)"

definition jwkToRSAPublicKey :: "jwks_env \<Rightarrow> JWK \<Rightarrow> convert_error + rsa_PublicKey" where
  "jwkToRSAPublicKey env jwk =
     (case DecodeString env (N jwk) of
        Inl err \<Rightarrow> Inl (FailedToDecodeModulus err)
      | Inr nBytes \<Rightarrow>
          (case DecodeString env (E jwk) of
             Inl err \<Rightarrow> Inl (FailedToDecodeExponent err)
           | Inr eBytes \<Rightarrow>
               let n = SetBytes nBytes; e = SetBytes eBytes
               in Inr \<lparr>pub_N = n, pub_E = Int64 e\<rparr>))"

text \<open>
  The loop of \<^verbatim>\<open>GetKeycloakPublicKey\<close> over the key records. The global
  \<^verbatim>\<open>publicKeys\<close> is the state: the loop stores each converted key into it, and returns
  at the first record that does not convert, with the keys stored so far left in it.
\<close>

fun GetKeycloakPublicKey_loop ::
  "jwks_env \<Rightarrow> JWK list \<Rightarrow> (string \<rightharpoonup> rsa_PublicKey) \<Rightarrow> load_error option \<times> (string \<rightharpoonup> rsa_PublicKey)"
where
  "GetKeycloakPublicKey_loop env [] publicKeys = (None, publicKeys)"
| "GetKeycloakPublicKey_loop env (key # keys) publicKeys =
     (case jwkToRSAPublicKey env key of
        Inl err \<Rightarrow> (Some (FailedToConvert err), publicKeys)
      | Inr pubKey \<Rightarrow> GetKeycloakPublicKey_loop env keys (publicKeys(Kid key \<mapsto> pubKey)))"

text \<open>
  \<^verbatim>\<open>GetKeycloakPublicKey\<close> takes the value of the global \<^verbatim>\<open>publicKeys\<close> and returns
  the error (\<open>None\<close> for \<^verbatim>\<open>nil\<close>) with the new value of the global. The global is
  assigned the empty map after the fetch and before the loop.
\<close>

definition GetKeycloakPublicKey ::
  "jwks_env \<Rightarrow> (string \<rightharpoonup> rsa_PublicKey) \<Rightarrow> load_error option \<times> (string \<rightharpoonup> rsa_PublicKey)"
where
  "GetKeycloakPublicKey env publicKeys =
     (case fetchJWKS env of
        Inl err \<Rightarrow> (Some (FailedToFetch err), publicKeys)
      | Inr keys \<Rightarrow> GetKeycloakPublicKey_loop env (jwks_Keys keys) Map.empty)"

subsection \<open>jwt.go: verifying a token\<close>

text \<open>
  The type assertion \<^verbatim>\<open>token.Method.(*jwt.SigningMethodRSA)\<close> holds for the methods
  RS256, RS384 and RS512; the RSA-PSS methods have a type of their own.
\<close>

definition is_SigningMethodRSA :: "signing_method \<Rightarrow> bool" where
  "is_SigningMethodRSA m = (m = RS256 \<or> m = RS384 \<or> m = RS512)"

text \<open>The key function that \<^verbatim>\<open>verifyToken\<close> passes to the parser.\<close>

definition keyFunc :: "(string \<rightharpoonup> rsa_PublicKey) \<Rightarrow> jwt_Token \<Rightarrow> keyfunc_error + rsa_PublicKey" where
  "keyFunc publicKeys token =
     (if \<not> is_SigningMethodRSA (Method token) then Inl (UnexpectedSigningMethod (Method token))
      else
        (case Header_kid token of
           Some (StringValue kid) \<Rightarrow>
             (case publicKeys kid of
                None \<Rightarrow> Inl (PublicKeyNotFound kid)
              | Some publicKey \<Rightarrow> Inr publicKey)
         | _ \<Rightarrow> Inl KidHeaderNotFound))"

text \<open>
  The claims validation that the parser of \<^verbatim>\<open>github.com/golang-jwt/jwt/v5\<close> runs with
  its default options: \<^verbatim>\<open>exp\<close>, when present, must be after the validator's clock
  reading, and \<^verbatim>\<open>nbf\<close>, when present, must not be after it; the errors are collected.
\<close>

definition verifyExpiresAt :: "CustomClaims \<Rightarrow> time \<Rightarrow> claim_error list" where
  "verifyExpiresAt claims now =
     (case ExpiresAt claims of
        None \<Rightarrow> []
      | Some exp \<Rightarrow> if now < exp then [] else [ErrTokenExpired])"

definition verifyNotBefore :: "CustomClaims \<Rightarrow> time \<Rightarrow> claim_error list" where
  "verifyNotBefore claims now =
     (case NotBefore claims of
        None \<Rightarrow> []
      | Some nbf \<Rightarrow> if nbf \<le> now then [] else [ErrTokenNotValidYet])"

definition Validate :: "CustomClaims \<Rightarrow> time \<Rightarrow> claim_error list" where
  "Validate claims now = verifyExpiresAt claims now @ verifyNotBefore claims now"

text \<open>
  \<^verbatim>\<open>jwt.ParseWithClaims\<close> of the same library, as \<^verbatim>\<open>verifyToken\<close> calls it (default
  parser, a key function): decode the token, ask the key function for the key, check the
  signature with the token's signing method, validate the claims, and only then mark the
  token valid. Each step returns its error at once.
\<close>

definition ParseWithClaims ::
  "jwt_env \<Rightarrow> (jwt_Token \<Rightarrow> keyfunc_error + rsa_PublicKey) \<Rightarrow> string \<Rightarrow> jwt_error + jwt_Token"
where
  "ParseWithClaims env kf tokenString =
     (case ParseUnverified env tokenString of
        Inl err \<Rightarrow> Inl (ErrParse err)
      | Inr token \<Rightarrow>
          (case kf token of
             Inl err \<Rightarrow> Inl (ErrKeyfunc err)
           | Inr key \<Rightarrow>
               if \<not> Verify env (Method token) (SigningString token) (Signature token) key
               then Inl ErrTokenSignatureInvalid
               else
                 (case Validate (Claims token) (validator_Now env) of
                    [] \<Rightarrow> Inr (token\<lparr>Valid := True\<rparr>)
                  | err # errs \<Rightarrow> Inl (ErrTokenInvalidClaims (err # errs)))))"

text \<open>The audience loop of \<^verbatim>\<open>verifyToken\<close>: it stops at the first \<^verbatim>\<open>account\<close>.\<close>

fun validAudience :: "string list \<Rightarrow> bool" where
  "validAudience [] = False"
| "validAudience (aud # auds) = (if aud = ''account'' then True else validAudience auds)"

definition verifyToken ::
  "jwt_env \<Rightarrow> (string \<rightharpoonup> rsa_PublicKey) \<Rightarrow> string \<Rightarrow> verify_error + CustomClaims"
where
  "verifyToken env publicKeys tokenString =
     (case ParseWithClaims env (keyFunc publicKeys) tokenString of
        Inl err \<Rightarrow> Inl (FailedToParseToken err)
      | Inr token \<Rightarrow>
          let claims = Claims token in
          if \<not> Valid token then Inl InvalidTokenClaims
          else if Issuer claims \<noteq> keycloakURL then Inl (InvalidIssuer keycloakURL (Issuer claims))
          else if (case ExpiresAt claims of None \<Rightarrow> False | Some exp \<Rightarrow> exp < time_Now env)
          then Inl TokenHasExpired
          else if length (Audience claims) > 0 \<and> \<not> validAudience (Audience claims)
          then Inl InvalidAudience
          else Inr claims)"

subsection \<open>jwt.go: the JWT gate\<close>

definition jwt_rejection :: "verify_error \<Rightarrow> (string \<times> body_value) list" where
  "jwt_rejection err =
     [(''error'', Text ''Invalid or expired JWT token''),
      (''detail'', VerifyErrorText err),
      (''method'', Text ''JWT Validation'')]"

definition JWTAuthMiddleware ::
  "jwt_env \<Rightarrow> (string \<rightharpoonup> rsa_PublicKey) \<Rightarrow> gin_Context \<Rightarrow> gin_Context"
where
  "JWTAuthMiddleware env publicKeys c =
     (case extractBearerToken c of
        (c1, token, ok) \<Rightarrow>
          if \<not> ok then c1
          else
            (case verifyToken env publicKeys token of
               Inl err \<Rightarrow> Abort (JSON StatusUnauthorized (jwt_rejection err) c1)
             | Inr claims \<Rightarrow>
                 Next (Set_key ''email'' (Email claims) (Set_key ''user_id'' (Subject claims) c1))))"

subsection \<open>tokenintrospect.go\<close>

record IntrospectionResponse =
  Active :: bool
  Exp :: int
  Iat :: int
  ClientID :: string
  Username :: string
  TokenType :: string
  Sub :: string
  IR_Email :: string

text \<open>
  What \<^verbatim>\<open>introspectToken\<close> takes from outside the package: \<^verbatim>\<open>http.NewRequest\<close>,
  \<^verbatim>\<open>http.Client.Do\<close> and \<^verbatim>\<open>json.Unmarshal\<close> into an
  \<^verbatim>\<open>IntrospectionResponse\<close>.
\<close>

record introspect_env =
  NewRequest :: "string \<Rightarrow> string \<Rightarrow> (string \<times> string) list \<Rightarrow> string + http_Request"
  client_Do :: "http_Request \<Rightarrow> string + http_Response"
  Unmarshal_Introspection :: "string \<Rightarrow> string + IntrospectionResponse"

definition introspection_form :: "string \<Rightarrow> (string \<times> string) list" where
  "introspection_form token =
     [(''token'', token), (''client_id'', serverClientID), (''client_secret'', serverClientSecret)]"

definition introspectToken :: "introspect_env \<Rightarrow> string \<Rightarrow> introspect_error + IntrospectionResponse" where
  "introspectToken env token =
     (let data = introspection_form token in
      case NewRequest env ''POST'' keycloakIntrospectURL data of
        Inl err \<Rightarrow> Inl (FailedToCreateRequest err)
      | Inr req0 \<Rightarrow>
          let req = Header_Set ''Content-Type'' ''application/x-www-form-urlencoded'' req0 in
          (case client_Do env req of
             Inl err \<Rightarrow> Inl (FailedToIntrospect err)
           | Inr resp \<Rightarrow>
               (case Body resp of
                  Inl err \<Rightarrow> Inl (FailedToReadResponse err)
                | Inr body \<Rightarrow>
                    if StatusCode resp \<noteq> StatusOK
                    then Inl (IntrospectionFailedWithStatus (StatusCode resp) body)
                    else
                      (case Unmarshal_Introspection env body of
                         Inl err \<Rightarrow> Inl (FailedToParseResponse err)
                       | Inr introspectResp \<Rightarrow> Inr introspectResp))))"

definition introspection_failure :: "introspect_error \<Rightarrow> (string \<times> body_value) list" where
  "introspection_failure err =
     [(''error'', Text ''Failed to introspect token''),
      (''detail'', IntrospectErrorText err),
      (''method'', Text ''Token Introspection'')]"

definition inactive_rejection :: "(string \<times> body_value) list" where
  "inactive_rejection =
     [(''error'', Text ''Token is not active or has been revoked''),
      (''method'', Text ''Token Introspection'')]"

definition TokenIntrospectionMiddleware :: "introspect_env \<Rightarrow> gin_Context \<Rightarrow> gin_Context" where
  "TokenIntrospectionMiddleware env c =
     (case extractBearerToken c of
        (c1, token, ok) \<Rightarrow>
          if \<not> ok then c1
          else
            (case introspectToken env token of
               Inl err \<Rightarrow> Abort (JSON StatusInternalServerError (introspection_failure err) c1)
             | Inr introspectResp \<Rightarrow>
                 if \<not> Active introspectResp
                 then Abort (JSON StatusUnauthorized inactive_rejection c1)
                 else Next (Set_key ''email'' (IR_Email introspectResp)
                        (Set_key ''user_id'' (Sub introspectResp) c1))))"

subsection \<open>The failures of the specification\<close>

text \<open>
  The failure names of the specification, as classes of the errors of the source:
  \<open>UnknownKey\<close> is the key function's "public key not found for kid", \<open>BadSignature\<close>
  the parser's signature error, \<open>Expired\<close> an expiry reported by the parser's claims
  validation or by \<^verbatim>\<open>verifyToken\<close>'s own check, and \<open>IntrospectionUnreachable\<close> a
  failed exchange with the provider (transport, body read or status).
\<close>

fun UnknownKey :: "verify_error \<Rightarrow> bool" where
  "UnknownKey (FailedToParseToken (ErrKeyfunc (PublicKeyNotFound kid))) = True"
| "UnknownKey _ = False"

fun BadSignature :: "verify_error \<Rightarrow> bool" where
  "BadSignature (FailedToParseToken ErrTokenSignatureInvalid) = True"
| "BadSignature _ = False"

fun Expired :: "verify_error \<Rightarrow> bool" where
  "Expired (FailedToParseToken (ErrTokenInvalidClaims errs)) = (ErrTokenExpired \<in> set errs)"
| "Expired TokenHasExpired = True"
| "Expired _ = False"


text \<open>The identity attributes of a context, and the keys of a response body.\<close>

definition identity_stored :: "gin_Context \<Rightarrow> bool" where
  "identity_stored c = (Keys c ''user_id'' \<noteq> None \<and> Keys c ''email'' \<noteq> None)"

definition no_identity :: "gin_Context \<Rightarrow> bool" where
  "no_identity c = (Keys c ''user_id'' = None \<and> Keys c ''email'' = None)"

definition has_field :: "gin_Context \<Rightarrow> string \<Rightarrow> bool" where
  "has_field c k = (map_of (written_body c) k \<noteq> None)"

section \<open>Example inputs\<close>

text \<open>
  Concrete keys, tokens and provider answers, at which the theorems below are applied.
  The signature check is a stand-in: the signature that verifies under a key is the one
  byte of its modulus.
\<close>

definition example_key :: rsa_PublicKey where
  "example_key = \<lparr>pub_N = 33, pub_E = 65537\<rparr>"

definition example_publicKeys :: "string \<rightharpoonup> rsa_PublicKey" where
  "example_publicKeys = [''k1'' \<mapsto> example_key]"

definition example_Verify :: "signing_method \<Rightarrow> string \<Rightarrow> 8 word list \<Rightarrow> rsa_PublicKey \<Rightarrow> bool" where
  "example_Verify m text sig key = (sig = [word_of_nat (pub_N key)])"

definition example_claims :: "time option \<Rightarrow> string list \<Rightarrow> CustomClaims" where
  "example_claims expiry aud =
     \<lparr>Issuer = keycloakURL, Subject = ''user-1'', Audience = aud, ExpiresAt = expiry,
      NotBefore = None, IssuedAt = Some 900, ID = ''id-1'', PreferredUsername = ''alice'',
      Email = ''alice@example.com'', Name = ''Alice''\<rparr>"

definition example_token ::
  "string \<Rightarrow> string \<Rightarrow> 8 word list \<Rightarrow> CustomClaims \<Rightarrow> jwt_Token" where
  "example_token raw kid sig claims =
     \<lparr>Raw = raw, Method = RS256, Header_kid = Some (StringValue kid), Claims = claims,
      SigningString = ''header.payload'', Signature = sig, Valid = False\<rparr>"

text \<open>
  The tokens that the example decoder knows, by name: signed by the cached key \<open>k1\<close>
  (signature byte 33) or by a key that is not cached (signature byte 55); expiring at
  2000 or at 500, the clock standing at 1000; one of them not valid before 1500.
\<close>

definition example_ParseUnverified :: "string \<Rightarrow> parse_error + jwt_Token" where
  "example_ParseUnverified raw =
     (if raw = ''good'' then
        Inr (example_token raw ''k1'' [33] (example_claims (Some 2000) [''account'']))
      else if raw = ''forged'' then
        Inr (example_token raw ''k1'' [55] (example_claims (Some 2000) [''account'']))
      else if raw = ''unknown-kid'' then
        Inr (example_token raw ''k9'' [55] (example_claims (Some 2000) [''account'']))
      else if raw = ''expired'' then
        Inr (example_token raw ''k1'' [33] (example_claims (Some 500) [''account'']))
      else if raw = ''expired-forged'' then
        Inr (example_token raw ''k1'' [55] (example_claims (Some 500) [''account'']))
      else if raw = ''other-audience'' then
        Inr (example_token raw ''k1'' [33] (example_claims (Some 2000) [''other'']))
      else if raw = ''no-audience'' then
        Inr (example_token raw ''k1'' [33] (example_claims (Some 2000) []))
      else if raw = ''not-yet-valid'' then
        Inr (example_token raw ''k1'' [33]
              ((example_claims (Some 2000) [])\<lparr>NotBefore := Some 1500\<rparr>))
      else Inl (ErrTokenMalformed ''token contains an invalid number of segments''))"

definition example_jwt_env :: jwt_env where
  "example_jwt_env =
     \<lparr>ParseUnverified = example_ParseUnverified, Verify = example_Verify,
      validator_Now = 1000, time_Now = 1000\<rparr>"

text \<open>
  A provider whose answer to the introspection call is given, and whose bodies decode as
  named: \<open>inactive\<close> stands for a body with \<^verbatim>\<open>active\<close> false, \<open>active\<close> for one with
  \<^verbatim>\<open>active\<close> true.
\<close>

definition example_IntrospectionResponse :: "bool \<Rightarrow> IntrospectionResponse" where
  "example_IntrospectionResponse a =
     \<lparr>Active = a, Exp = 2000, Iat = 900, ClientID = ''web'', Username = ''alice'',
      TokenType = ''Bearer'', Sub = ''user-1'', IR_Email = ''alice@example.com''\<rparr>"

definition example_Unmarshal_Introspection :: "string \<Rightarrow> string + IntrospectionResponse" where
  "example_Unmarshal_Introspection b =
     (if b = ''inactive'' then Inr (example_IntrospectionResponse False)
      else if b = ''active'' then Inr (example_IntrospectionResponse True)
      else Inl ''invalid character'')"

definition example_NewRequest ::
  "string \<Rightarrow> string \<Rightarrow> (string \<times> string) list \<Rightarrow> string + http_Request" where
  "example_NewRequest method url form =
     Inr \<lparr>req_Method = method, req_URL = url, req_Form = form, req_Header = []\<rparr>"

definition example_introspect_env :: "string + http_Response \<Rightarrow> introspect_env" where
  "example_introspect_env answer =
     \<lparr>NewRequest = example_NewRequest, client_Do = (\<lambda>req. answer),
      Unmarshal_Introspection = example_Unmarshal_Introspection\<rparr>"

text \<open>A provider that publishes the given key records.\<close>

definition example_DecodeString :: "string \<Rightarrow> string + 8 word list" where
  "example_DecodeString s =
     (if s = ''AQAB'' then Inr [1, 0, 1]
      else if s = ''IQ'' then Inr [33]
      else if s = ''Nw'' then Inr [55]
      else Inl ''illegal base64 data at input byte 0'')"

definition example_JWK :: "string \<Rightarrow> string \<Rightarrow> JWK" where
  "example_JWK kid modulus =
     \<lparr>Kid = kid, Kty = ''RSA'', Alg = ''RS256'', Use = ''sig'', N = modulus, E = ''AQAB''\<rparr>"

definition example_jwks_env :: "string + http_Response \<Rightarrow> JWK list \<Rightarrow> jwks_env" where
  "example_jwks_env answer keys =
     \<lparr>http_Get = (\<lambda>url. answer), Unmarshal_JWKS = (\<lambda>b. Inr \<lparr>jwks_Keys = keys\<rparr>),
      DecodeString = example_DecodeString\<rparr>"

section \<open>Properties\<close>

subsection \<open>The bearer extractor\<close>

lemma strings_Split_not_Nil: "strings_Split s sep \<noteq> []"
  by (induction s) (auto split: list.splits)

lemma strings_Split_no_sep: "sep \<notin> set s \<Longrightarrow> strings_Split s sep = [s]"
  by (induction s) (auto split: list.splits)

lemma strings_Split_append:
  "sep \<notin> set a \<Longrightarrow> strings_Split (a @ sep # b) sep = a # strings_Split b sep"
  by (induction a) (auto split: list.splits simp: strings_Split_not_Nil)

lemma strings_Split_Join:
  "ps \<noteq> [] \<Longrightarrow> list_all (\<lambda>p. sep \<notin> set p) ps \<Longrightarrow> strings_Split (strings_Join ps sep) sep = ps"
  by (induction ps sep rule: strings_Join.induct)
     (simp_all add: strings_Split_no_sep strings_Split_append)

lemma strings_Join_Split: "strings_Join (strings_Split s sep) sep = s"
proof (induction s)
  case Nil
  show ?case by simp
next
  case (Cons c s)
  obtain p ps where sp: "strings_Split s sep = p # ps"
    using strings_Split_not_Nil [of s sep] by (cases "strings_Split s sep") auto
  with Cons show ?case by (cases ps) (auto simp: strings_Split_not_Nil)
qed

lemma strings_Split_parts: "list_all (\<lambda>p. sep \<notin> set p) (strings_Split s sep)"
  by (induction s) (auto split: list.splits simp: strings_Split_not_Nil)

lemma space_separated_parts_iff:
  "space_separated_parts h ps \<longleftrightarrow> strings_Split h CHR '' '' = ps"
  unfolding space_separated_parts_def
  using strings_Split_Join [of ps "CHR '' ''"] strings_Join_Split [of h "CHR '' ''"]
    strings_Split_parts [of "CHR '' ''" h] strings_Split_not_Nil [of h "CHR '' ''"]
  by auto

text \<open>
  Claim C3, as amended. When the \<^verbatim>\<open>Authorization\<close> header is absent or empty,
  \<^verbatim>\<open>extractBearerToken\<close> fails with the missing-header response. When the header is
  not empty and does not split at its space characters into exactly two parts with the
  first part equal to \<^verbatim>\<open>Bearer\<close>, it fails with the malformed-header response.
  Otherwise it succeeds, leaves the context as it was and returns the second part as it
  stands. The parts are those between consecutive space characters (an empty part is a
  part); no other whitespace character separates parts.
\<close>

theorem extractBearerToken_rules:
  "((Authorization c = None \<or> Authorization c = Some []) \<longrightarrow>
      extractBearerToken c =
        (Abort (JSON StatusUnauthorized missing_header_response c), [], False)) \<and>
   (Authorization c = Some h \<and> h \<noteq> [] \<and>
      \<not> (\<exists>ps. space_separated_parts h ps \<and> length ps = 2 \<and> ps ! 0 = ''Bearer'') \<longrightarrow>
      extractBearerToken c =
        (Abort (JSON StatusUnauthorized malformed_header_response c), [], False)) \<and>
   (Authorization c = Some h \<and>
      space_separated_parts h ps \<and> length ps = 2 \<and> ps ! 0 = ''Bearer'' \<longrightarrow>
      extractBearerToken c = (c, ps ! 1, True))"
proof (intro conjI impI)
  assume "Authorization c = None \<or> Authorization c = Some []"
  then show "extractBearerToken c =
      (Abort (JSON StatusUnauthorized missing_header_response c), [], False)"
    by (auto simp: extractBearerToken_def GetHeader_Authorization_def)
next
  assume a: "Authorization c = Some h \<and> h \<noteq> [] \<and>
      \<not> (\<exists>ps. space_separated_parts h ps \<and> length ps = 2 \<and> ps ! 0 = ''Bearer'')"
  then have "length (strings_Split h CHR '' '') \<noteq> 2 \<or> strings_Split h CHR '' '' ! 0 \<noteq> ''Bearer''"
    by (simp add: space_separated_parts_iff)
  with a show "extractBearerToken c =
      (Abort (JSON StatusUnauthorized malformed_header_response c), [], False)"
    by (auto simp: extractBearerToken_def GetHeader_Authorization_def Let_def)
next
  assume a: "Authorization c = Some h \<and>
      space_separated_parts h ps \<and> length ps = 2 \<and> ps ! 0 = ''Bearer''"
  then have sp: "strings_Split h CHR '' '' = ps"
    by (simp add: space_separated_parts_iff)
  from a have "h \<noteq> []"
    by (cases ps; cases "tl ps") (auto simp: space_separated_parts_def)
  with a sp show "extractBearerToken c = (c, ps ! 1, True)"
    by (simp add: extractBearerToken_def GetHeader_Authorization_def Let_def)
qed

theorem extractBearerToken_rules_witness:
  "extractBearerToken (new_context None) =
     (Abort (JSON StatusUnauthorized missing_header_response (new_context None)), [], False) \<and>
   extractBearerToken (new_context (Some ''Token abc'')) =
     (Abort (JSON StatusUnauthorized malformed_header_response (new_context (Some ''Token abc''))),
      [], False) \<and>
   extractBearerToken (new_context (Some ''Bearer a.b.c'')) =
     (new_context (Some ''Bearer a.b.c''), ''a.b.c'', True)"
proof -
  have s: "\<not> (\<exists>ps. space_separated_parts ''Token abc'' ps \<and> length ps = 2 \<and> ps ! 0 = ''Bearer'')"
    by (simp add: space_separated_parts_iff)
  have t: "space_separated_parts ''Bearer a.b.c'' [''Bearer'', ''a.b.c'']"
    by (simp add: space_separated_parts_def)
  show ?thesis
    using extractBearerToken_rules [of "new_context None" "[]" "[]"]
      extractBearerToken_rules [of "new_context (Some ''Token abc'')" "''Token abc''" "[]"]
      extractBearerToken_rules [of "new_context (Some ''Bearer a.b.c'')" "''Bearer a.b.c''"
        "[''Bearer'', ''a.b.c'']"] s t
    by (simp add: new_context_def)
qed

text \<open>
  Claim C3 as stated fails: the header \<^verbatim>\<open>Bearer\<close>, a tab, \<^verbatim>\<open>abc\<close> has exactly two
  whitespace-separated parts, the first of them \<^verbatim>\<open>Bearer\<close>, and is rejected as
  malformed, since the source splits at the space character only.
\<close>

theorem extractBearerToken_tab_counterexample:
  "whitespace_separated_parts (''Bearer'' @ CHR 0x09 # ''abc'') = [''Bearer'', ''abc''] \<and>
   extractBearerToken (new_context (Some (''Bearer'' @ CHR 0x09 # ''abc''))) =
     (Abort (JSON StatusUnauthorized malformed_header_response
        (new_context (Some (''Bearer'' @ CHR 0x09 # ''abc'')))), [], False)"
  by (simp add: is_whitespace_def extractBearerToken_def GetHeader_Authorization_def
      new_context_def)

text \<open>
  Claim C10. For the header value \<^verbatim>\<open>Bearer\<close> followed by one space and nothing else,
  \<^verbatim>\<open>extractBearerToken\<close> succeeds and returns the empty string as the token.
\<close>

theorem extractBearerToken_Bearer_space:
  "extractBearerToken (new_context (Some ''Bearer '')) = (new_context (Some ''Bearer ''), [], True)"
  by (simp add: extractBearerToken_def GetHeader_Authorization_def new_context_def)

theorem extractBearerToken_Bearer_space_witness:
  "snd (extractBearerToken (new_context (Some ''Bearer ''))) = ([], True)"
  using extractBearerToken_Bearer_space by simp

subsection \<open>The signature verifier\<close>

lemma validAudience_iff: "validAudience auds \<longleftrightarrow> ''account'' \<in> set auds"
  by (induction auds) auto

lemma ParseWithClaims_unknown_kid:
  assumes "ParseUnverified env tokenString = Inr token"
    and "is_SigningMethodRSA (Method token)"
    and "Header_kid token = Some (StringValue kid)"
    and "publicKeys kid = None"
  shows "ParseWithClaims env (keyFunc publicKeys) tokenString = Inl (ErrKeyfunc (PublicKeyNotFound kid))"
  using assms by (simp add: ParseWithClaims_def keyFunc_def)

lemma ParseWithClaims_bad_signature:
  assumes "ParseUnverified env tokenString = Inr token"
    and "is_SigningMethodRSA (Method token)"
    and "Header_kid token = Some (StringValue kid)"
    and "publicKeys kid = Some key"
    and "\<not> Verify env (Method token) (SigningString token) (Signature token) key"
  shows "ParseWithClaims env (keyFunc publicKeys) tokenString = Inl ErrTokenSignatureInvalid"
  using assms by (simp add: ParseWithClaims_def keyFunc_def)

lemma ParseWithClaims_expired:
  assumes "ParseUnverified env tokenString = Inr token"
    and "is_SigningMethodRSA (Method token)"
    and "Header_kid token = Some (StringValue kid)"
    and "publicKeys kid = Some key"
    and "Verify env (Method token) (SigningString token) (Signature token) key"
    and "ExpiresAt (Claims token) = Some e"
    and "e \<le> validator_Now env"
  shows "ParseWithClaims env (keyFunc publicKeys) tokenString =
           Inl (ErrTokenInvalidClaims (ErrTokenExpired # verifyNotBefore (Claims token) (validator_Now env)))"
  using assms by (simp add: ParseWithClaims_def keyFunc_def Validate_def verifyExpiresAt_def)

lemma ParseWithClaims_accepts:
  assumes "ParseUnverified env tokenString = Inr token"
    and "is_SigningMethodRSA (Method token)"
    and "Header_kid token = Some (StringValue kid)"
    and "publicKeys kid = Some key"
    and "Verify env (Method token) (SigningString token) (Signature token) key"
    and "\<forall>e. ExpiresAt (Claims token) = Some e \<longrightarrow> validator_Now env < e"
    and "\<forall>n. NotBefore (Claims token) = Some n \<longrightarrow> n \<le> validator_Now env"
  shows "ParseWithClaims env (keyFunc publicKeys) tokenString = Inr (token\<lparr>Valid := True\<rparr>)"
proof -
  from assms(6) have "verifyExpiresAt (Claims token) (validator_Now env) = []"
    by (simp add: verifyExpiresAt_def split: option.splits)
  moreover from assms(7) have "verifyNotBefore (Claims token) (validator_Now env) = []"
    by (simp add: verifyNotBefore_def split: option.splits)
  ultimately show ?thesis
    using assms(1-5) by (simp add: ParseWithClaims_def keyFunc_def Validate_def)
qed

text \<open>
  Claim C1, as amended. For every token that decodes, names an RSA signing method and
  carries a string \<^verbatim>\<open>kid\<close>: when the \<^verbatim>\<open>kid\<close> is absent from the key-set cache,
  \<^verbatim>\<open>verifyToken\<close> fails with the key-not-found error of the key function, which is an
  \<open>UnknownKey\<close> failure and not a \<open>BadSignature\<close> failure; when the \<^verbatim>\<open>kid\<close> is in the
  cache and the signature does not verify under the cached key (as for a signature made
  with any other key), it fails with the parser's signature error, a \<open>BadSignature\<close>
  failure.
\<close>

theorem verifyToken_unknown_kid:
  assumes "ParseUnverified env tokenString = Inr token"
    and "is_SigningMethodRSA (Method token)"
    and "Header_kid token = Some (StringValue kid)"
  shows "(publicKeys kid = None \<longrightarrow>
            (\<exists>err. verifyToken env publicKeys tokenString = Inl err \<and>
               err = FailedToParseToken (ErrKeyfunc (PublicKeyNotFound kid)) \<and>
               UnknownKey err \<and> \<not> BadSignature err)) \<and>
         (\<forall>key. publicKeys kid = Some key \<and>
            \<not> Verify env (Method token) (SigningString token) (Signature token) key \<longrightarrow>
            (\<exists>err. verifyToken env publicKeys tokenString = Inl err \<and>
               err = FailedToParseToken ErrTokenSignatureInvalid \<and>
               BadSignature err \<and> \<not> UnknownKey err))"
proof (intro conjI impI allI)
  assume "publicKeys kid = None"
  with assms have "verifyToken env publicKeys tokenString =
      Inl (FailedToParseToken (ErrKeyfunc (PublicKeyNotFound kid)))"
    by (simp add: verifyToken_def ParseWithClaims_unknown_kid)
  then show "\<exists>err. verifyToken env publicKeys tokenString = Inl err \<and>
      err = FailedToParseToken (ErrKeyfunc (PublicKeyNotFound kid)) \<and>
      UnknownKey err \<and> \<not> BadSignature err"
    by simp
next
  fix key
  assume "publicKeys kid = Some key \<and>
    \<not> Verify env (Method token) (SigningString token) (Signature token) key"
  with assms have "verifyToken env publicKeys tokenString =
      Inl (FailedToParseToken ErrTokenSignatureInvalid)"
    by (simp add: verifyToken_def ParseWithClaims_bad_signature)
  then show "\<exists>err. verifyToken env publicKeys tokenString = Inl err \<and>
      err = FailedToParseToken ErrTokenSignatureInvalid \<and>
      BadSignature err \<and> \<not> UnknownKey err"
    by simp
qed

lemma example_parse_simps:
  "ParseUnverified example_jwt_env = example_ParseUnverified"
  "Verify example_jwt_env = example_Verify"
  "validator_Now example_jwt_env = 1000"
  "time_Now example_jwt_env = 1000"
  by (simp_all add: example_jwt_env_def)

theorem verifyToken_unknown_kid_witness:
  "verifyToken example_jwt_env example_publicKeys ''unknown-kid'' =
     Inl (FailedToParseToken (ErrKeyfunc (PublicKeyNotFound ''k9''))) \<and>
   verifyToken example_jwt_env example_publicKeys ''forged'' =
     Inl (FailedToParseToken ErrTokenSignatureInvalid)"
proof -
  let ?c = "example_claims (Some 2000) [''account'']"
  have p: "ParseUnverified example_jwt_env ''unknown-kid'' = Inr (example_token ''unknown-kid'' ''k9'' [55] ?c)"
    by (simp add: example_parse_simps example_ParseUnverified_def)
  have q: "ParseUnverified example_jwt_env ''forged'' = Inr (example_token ''forged'' ''k1'' [55] ?c)"
    by (simp add: example_parse_simps example_ParseUnverified_def)
  have m: "is_SigningMethodRSA (Method (example_token r k s c))" for r k s c
    by (simp add: example_token_def is_SigningMethodRSA_def)
  have h: "Header_kid (example_token r k s c) = Some (StringValue k)" for r k s c
    by (simp add: example_token_def)
  have k9: "example_publicKeys ''k9'' = None" by (simp add: example_publicKeys_def)
  have k1: "example_publicKeys ''k1'' = Some example_key" by (simp add: example_publicKeys_def)
  have v: "\<not> Verify example_jwt_env (Method (example_token ''forged'' ''k1'' [55] ?c))
      (SigningString (example_token ''forged'' ''k1'' [55] ?c))
      (Signature (example_token ''forged'' ''k1'' [55] ?c)) example_key"
    by (simp add: example_parse_simps example_Verify_def example_token_def example_key_def)
  from verifyToken_unknown_kid [OF p m h, of example_publicKeys] k9
    verifyToken_unknown_kid [OF q m h, of example_publicKeys] k1 v
  show ?thesis by auto
qed

text \<open>
  Claim C1 as stated fails: a token that names the cached key \<open>k1\<close> and carries a
  signature that does not verify under it is rejected with \<open>BadSignature\<close>, not with
  \<open>UnknownKey\<close>.
\<close>

theorem verifyToken_unknown_key_counterexample:
  "example_publicKeys ''k1'' = Some example_key \<and>
   \<not> example_Verify RS256 ''header.payload'' [55] example_key \<and>
   ParseUnverified example_jwt_env ''forged'' =
     Inr (example_token ''forged'' ''k1'' [55] (example_claims (Some 2000) [''account''])) \<and>
   verifyToken example_jwt_env example_publicKeys ''forged'' =
     Inl (FailedToParseToken ErrTokenSignatureInvalid) \<and>
   BadSignature (FailedToParseToken ErrTokenSignatureInvalid) \<and>
   \<not> UnknownKey (FailedToParseToken ErrTokenSignatureInvalid)"
  by (simp add: verifyToken_def ParseWithClaims_def keyFunc_def example_parse_simps
      example_ParseUnverified_def example_token_def example_publicKeys_def example_Verify_def
      example_key_def is_SigningMethodRSA_def)

text \<open>
  Claim C2, as amended. For every token that decodes, names an RSA signing method and a
  cached key, and carries an \<^verbatim>\<open>exp\<close> claim: when its signature does not verify,
  \<^verbatim>\<open>verifyToken\<close> fails with the signature error, which is not an \<open>Expired\<close> failure,
  whatever \<^verbatim>\<open>exp\<close> is. When the signature verifies and \<^verbatim>\<open>exp\<close> is not after the
  clock reading of the parser's validation (so, when it is in the past there),
  \<^verbatim>\<open>verifyToken\<close> fails with the \<open>Expired\<close> failure that the parser reports. When the
  signature verifies, \<^verbatim>\<open>exp\<close> is after the parser's clock reading but before the clock
  reading of \<^verbatim>\<open>verifyToken\<close>'s own expiration check, and \<^verbatim>\<open>nbf\<close> is not in the
  future, \<^verbatim>\<open>verifyToken\<close> fails with its own \<open>Expired\<close> error when the issuer is the
  expected one, and with \<open>InvalidIssuer\<close> otherwise, the issuer being checked first.
\<close>

theorem verifyToken_expired:
  assumes "ParseUnverified env tokenString = Inr token"
    and "is_SigningMethodRSA (Method token)"
    and "Header_kid token = Some (StringValue kid)"
    and "publicKeys kid = Some key"
    and "ExpiresAt (Claims token) = Some e"
  shows "(\<not> Verify env (Method token) (SigningString token) (Signature token) key \<longrightarrow>
            verifyToken env publicKeys tokenString =
              Inl (FailedToParseToken ErrTokenSignatureInvalid) \<and>
            \<not> Expired (FailedToParseToken ErrTokenSignatureInvalid)) \<and>
         (Verify env (Method token) (SigningString token) (Signature token) key \<and>
            e \<le> validator_Now env \<longrightarrow>
            (\<exists>errs. verifyToken env publicKeys tokenString =
                 Inl (FailedToParseToken (ErrTokenInvalidClaims errs)) \<and>
               ErrTokenExpired \<in> set errs \<and>
               Expired (FailedToParseToken (ErrTokenInvalidClaims errs)))) \<and>
         (Verify env (Method token) (SigningString token) (Signature token) key \<and>
            validator_Now env < e \<and> e < time_Now env \<and>
            (\<forall>n. NotBefore (Claims token) = Some n \<longrightarrow> n \<le> validator_Now env) \<longrightarrow>
            verifyToken env publicKeys tokenString =
              (if Issuer (Claims token) = keycloakURL then Inl TokenHasExpired
               else Inl (InvalidIssuer keycloakURL (Issuer (Claims token)))) \<and>
            Expired TokenHasExpired \<and>
            \<not> Expired (InvalidIssuer keycloakURL (Issuer (Claims token))))"
proof (intro conjI impI)
  assume "\<not> Verify env (Method token) (SigningString token) (Signature token) key"
  with assms show "verifyToken env publicKeys tokenString =
      Inl (FailedToParseToken ErrTokenSignatureInvalid)"
    by (simp add: verifyToken_def ParseWithClaims_bad_signature)
next
  show "\<not> Expired (FailedToParseToken ErrTokenSignatureInvalid)" by simp
next
  assume "Verify env (Method token) (SigningString token) (Signature token) key \<and>
    e \<le> validator_Now env"
  with assms have "verifyToken env publicKeys tokenString =
      Inl (FailedToParseToken (ErrTokenInvalidClaims
        (ErrTokenExpired # verifyNotBefore (Claims token) (validator_Now env))))"
    by (simp add: verifyToken_def ParseWithClaims_expired)
  then show "\<exists>errs. verifyToken env publicKeys tokenString =
        Inl (FailedToParseToken (ErrTokenInvalidClaims errs)) \<and>
      ErrTokenExpired \<in> set errs \<and>
      Expired (FailedToParseToken (ErrTokenInvalidClaims errs))"
    by simp
next
  assume a: "Verify env (Method token) (SigningString token) (Signature token) key \<and>
    validator_Now env < e \<and> e < time_Now env \<and>
    (\<forall>n. NotBefore (Claims token) = Some n \<longrightarrow> n \<le> validator_Now env)"
  from a have v: "Verify env (Method token) (SigningString token) (Signature token) key"
    and nb: "\<forall>n. NotBefore (Claims token) = Some n \<longrightarrow> n \<le> validator_Now env"
    by blast+
  from a assms have ex: "\<forall>e. ExpiresAt (Claims token) = Some e \<longrightarrow> validator_Now env < e"
    by simp
  have "ParseWithClaims env (keyFunc publicKeys) tokenString = Inr (token\<lparr>Valid := True\<rparr>)"
    by (rule ParseWithClaims_accepts [where publicKeys = publicKeys, OF assms(1-4) v ex nb])
  with assms a show "verifyToken env publicKeys tokenString =
      (if Issuer (Claims token) = keycloakURL then Inl TokenHasExpired
       else Inl (InvalidIssuer keycloakURL (Issuer (Claims token))))"
    by (simp add: verifyToken_def)
next
  show "Expired TokenHasExpired" by simp
next
  show "\<not> Expired (InvalidIssuer keycloakURL (Issuer (Claims token)))" by simp
qed

theorem verifyToken_expired_witness:
  "verifyToken example_jwt_env example_publicKeys ''expired'' =
     Inl (FailedToParseToken (ErrTokenInvalidClaims [ErrTokenExpired])) \<and>
   verifyToken example_jwt_env example_publicKeys ''expired-forged'' =
     Inl (FailedToParseToken ErrTokenSignatureInvalid) \<and>
   verifyToken (example_jwt_env\<lparr>time_Now := 3000\<rparr>) example_publicKeys ''good'' =
     Inl TokenHasExpired"
proof -
  let ?t = "example_token ''expired'' ''k1'' [33] (example_claims (Some 500) [''account''])"
  let ?f = "example_token ''expired-forged'' ''k1'' [55] (example_claims (Some 500) [''account''])"
  let ?g = "example_token ''good'' ''k1'' [33] (example_claims (Some 2000) [''account''])"
  let ?late = "example_jwt_env\<lparr>time_Now := 3000\<rparr>"
  have p: "ParseUnverified example_jwt_env ''expired'' = Inr ?t"
    "ParseUnverified example_jwt_env ''expired-forged'' = Inr ?f"
    "ParseUnverified ?late ''good'' = Inr ?g"
    by (simp_all add: example_parse_simps example_ParseUnverified_def)
  have m: "is_SigningMethodRSA (Method (example_token r k s c))" for r k s c
    by (simp add: example_token_def is_SigningMethodRSA_def)
  have h: "Header_kid (example_token r k s c) = Some (StringValue k)" for r k s c
    by (simp add: example_token_def)
  have k: "example_publicKeys ''k1'' = Some example_key"
    by (simp add: example_publicKeys_def)
  have e: "ExpiresAt (Claims (example_token r k s (example_claims x a))) = x" for r k s x a
    by (simp add: example_token_def example_claims_def)
  have v: "Verify example_jwt_env (Method ?t) (SigningString ?t) (Signature ?t) example_key"
    "\<not> Verify example_jwt_env (Method ?f) (SigningString ?f) (Signature ?f) example_key"
    "Verify ?late (Method ?g) (SigningString ?g) (Signature ?g) example_key"
    by (simp_all add: example_parse_simps example_Verify_def example_token_def example_key_def)
  have n: "500 \<le> validator_Now example_jwt_env" "validator_Now ?late < 2000"
    "2000 < time_Now ?late"
    by (simp_all add: example_parse_simps)
  have b: "\<forall>n. NotBefore (Claims ?g) = Some n \<longrightarrow> n \<le> validator_Now ?late"
    by (simp add: example_token_def example_claims_def)
  have i: "Issuer (Claims ?g) = keycloakURL"
    by (simp add: example_token_def example_claims_def)
  have x: "verifyNotBefore (Claims ?t) (validator_Now example_jwt_env) = []"
    by (simp add: verifyNotBefore_def example_token_def example_claims_def)
  have one: "verifyToken example_jwt_env example_publicKeys ''expired'' =
      Inl (FailedToParseToken (ErrTokenInvalidClaims [ErrTokenExpired]))"
  proof -
    have "verifyToken example_jwt_env example_publicKeys ''expired'' =
        Inl (FailedToParseToken (ErrTokenInvalidClaims
          (ErrTokenExpired # verifyNotBefore (Claims ?t) (validator_Now example_jwt_env))))"
      using p(1) m h k v(1) e n(1)
      by (simp add: verifyToken_def ParseWithClaims_expired [where kid = "''k1''" and key = example_key and e = 500])
    with x show ?thesis by simp
  qed
  have two: "verifyToken example_jwt_env example_publicKeys ''expired-forged'' =
      Inl (FailedToParseToken ErrTokenSignatureInvalid)"
    using verifyToken_expired [where publicKeys = example_publicKeys, OF p(2) m h k e] v(2)
    by blast
  have three: "verifyToken ?late example_publicKeys ''good'' = Inl TokenHasExpired"
    using verifyToken_expired [where publicKeys = example_publicKeys, OF p(3) m h k e]
      v(3) n(2,3) b i
    by simp
  from one two three show ?thesis by blast
qed

text \<open>
  Claim C2 as stated fails: the signature is checked before the claims, so an expired
  token whose signature does not verify is rejected with the signature error, which is not
  an \<open>Expired\<close> failure.
\<close>

theorem verifyToken_expired_counterexample:
  "ParseUnverified example_jwt_env ''expired-forged'' =
     Inr (example_token ''expired-forged'' ''k1'' [55] (example_claims (Some 500) [''account''])) \<and>
   ExpiresAt (example_claims (Some 500) [''account'']) = Some 500 \<and>
   500 < validator_Now example_jwt_env \<and> 500 < time_Now example_jwt_env \<and>
   verifyToken example_jwt_env example_publicKeys ''expired-forged'' =
     Inl (FailedToParseToken ErrTokenSignatureInvalid) \<and>
   \<not> Expired (FailedToParseToken ErrTokenSignatureInvalid)"
  by (simp add: verifyToken_def ParseWithClaims_def keyFunc_def example_parse_simps
      example_ParseUnverified_def example_token_def example_publicKeys_def example_Verify_def
      example_key_def is_SigningMethodRSA_def example_claims_def)

text \<open>
  Claim C4, as amended. For every token that passes the signature check (it decodes, names
  an RSA signing method and a cached key, and its signature verifies under that key), the
  issuer check, the expiration checks (of the parser and of \<^verbatim>\<open>verifyToken\<close>) and the
  parser's not-before check (\<^verbatim>\<open>nbf\<close>, when present, is not in the future):
  \<^verbatim>\<open>verifyToken\<close> accepts the token, returning its claims, when its audience list is
  empty or contains \<^verbatim>\<open>account\<close>, the one expected value, and rejects it with
  \<open>InvalidAudience\<close> otherwise.
\<close>

theorem verifyToken_audience:
  assumes "ParseUnverified env tokenString = Inr token"
    and "is_SigningMethodRSA (Method token)"
    and "Header_kid token = Some (StringValue kid)"
    and "publicKeys kid = Some key"
    and "Verify env (Method token) (SigningString token) (Signature token) key"
    and "Issuer (Claims token) = keycloakURL"
    and "\<forall>e. ExpiresAt (Claims token) = Some e \<longrightarrow> validator_Now env < e \<and> \<not> e < time_Now env"
    and "\<forall>n. NotBefore (Claims token) = Some n \<longrightarrow> n \<le> validator_Now env"
  shows "verifyToken env publicKeys tokenString =
           (if Audience (Claims token) = [] \<or> ''account'' \<in> set (Audience (Claims token))
            then Inr (Claims token) else Inl InvalidAudience)"
proof -
  from assms(7) have ex: "\<forall>e. ExpiresAt (Claims token) = Some e \<longrightarrow> validator_Now env < e"
    by simp
  have p: "ParseWithClaims env (keyFunc publicKeys) tokenString = Inr (token\<lparr>Valid := True\<rparr>)"
    by (rule ParseWithClaims_accepts [where publicKeys = publicKeys, OF assms(1-5) ex assms(8)])
  from assms(7)
  have "\<not> (case ExpiresAt (Claims token) of None \<Rightarrow> False | Some e \<Rightarrow> e < time_Now env)"
    by (simp split: option.splits)
  with p assms(6) show ?thesis
    by (simp add: verifyToken_def validAudience_iff)
qed

lemma example_ParseWithClaims:
  "raw = ''good'' \<or> raw = ''other-audience'' \<or> raw = ''no-audience'' \<Longrightarrow>
   ParseWithClaims example_jwt_env (keyFunc example_publicKeys) raw =
     Inr (example_token raw ''k1'' [33]
           (example_claims (Some 2000)
              (if raw = ''good'' then [''account''] else if raw = ''other-audience'' then [''other'']
               else []))\<lparr>Valid := True\<rparr>)"
  by (auto simp add: ParseWithClaims_def keyFunc_def example_parse_simps
      example_ParseUnverified_def example_token_def example_publicKeys_def example_Verify_def
      example_key_def is_SigningMethodRSA_def Validate_def verifyExpiresAt_def
      verifyNotBefore_def example_claims_def)

theorem verifyToken_audience_witness:
  "verifyToken example_jwt_env example_publicKeys ''good'' =
     Inr (example_claims (Some 2000) [''account'']) \<and>
   verifyToken example_jwt_env example_publicKeys ''other-audience'' = Inl InvalidAudience \<and>
   verifyToken example_jwt_env example_publicKeys ''no-audience'' =
     Inr (example_claims (Some 2000) [])"
proof -
  have p: "ParseUnverified example_jwt_env ''good'' =
      Inr (example_token ''good'' ''k1'' [33] (example_claims (Some 2000) [''account'']))"
    "ParseUnverified example_jwt_env ''other-audience'' =
      Inr (example_token ''other-audience'' ''k1'' [33] (example_claims (Some 2000) [''other'']))"
    "ParseUnverified example_jwt_env ''no-audience'' =
      Inr (example_token ''no-audience'' ''k1'' [33] (example_claims (Some 2000) []))"
    by (simp_all add: example_parse_simps example_ParseUnverified_def)
  have m: "is_SigningMethodRSA (Method (example_token r k s c))" for r k s c
    by (simp add: example_token_def is_SigningMethodRSA_def)
  have h: "Header_kid (example_token r k s c) = Some (StringValue k)" for r k s c
    by (simp add: example_token_def)
  have k: "example_publicKeys ''k1'' = Some example_key"
    by (simp add: example_publicKeys_def)
  have v: "Verify example_jwt_env (Method (example_token r kid [33] c))
      (SigningString (example_token r kid [33] c)) (Signature (example_token r kid [33] c))
      example_key" for r kid c
    by (simp add: example_parse_simps example_Verify_def example_token_def example_key_def)
  have i: "Issuer (Claims (example_token r kid s (example_claims x a))) = keycloakURL"
    for r kid s x a
    by (simp add: example_token_def example_claims_def)
  have e: "\<forall>e. ExpiresAt (Claims (example_token r kid s (example_claims (Some 2000) a))) = Some e \<longrightarrow>
      validator_Now example_jwt_env < e \<and> \<not> e < time_Now example_jwt_env" for r kid s a
    by (simp add: example_token_def example_claims_def example_parse_simps)
  have n: "\<forall>n. NotBefore (Claims (example_token r kid s (example_claims x a))) = Some n \<longrightarrow>
      n \<le> validator_Now example_jwt_env" for r kid s x a
    by (simp add: example_token_def example_claims_def)
  have c: "Claims (example_token r kid s cl) = cl" for r kid s cl
    by (simp add: example_token_def)
  have a: "Audience (example_claims x au) = au" for x au
    by (simp add: example_claims_def)
  show ?thesis
    using verifyToken_audience [where publicKeys = example_publicKeys, OF p(1) m h k v i e n]
      verifyToken_audience [where publicKeys = example_publicKeys, OF p(2) m h k v i e n]
      verifyToken_audience [where publicKeys = example_publicKeys, OF p(3) m h k v i e n]
    by (simp add: c a)
qed

text \<open>
  Claim C4 as stated fails: a token without audience whose signature verifies, whose issuer
  matches and which has not expired, but whose \<^verbatim>\<open>nbf\<close> claim lies in the future, is
  rejected by the parser's validation as not yet valid; it is not accepted.
\<close>

theorem verifyToken_audience_counterexample:
  "ParseUnverified example_jwt_env ''not-yet-valid'' =
     Inr (example_token ''not-yet-valid'' ''k1'' [33]
           ((example_claims (Some 2000) [])\<lparr>NotBefore := Some 1500\<rparr>)) \<and>
   example_publicKeys ''k1'' = Some example_key \<and>
   Verify example_jwt_env RS256 ''header.payload'' [33] example_key \<and>
   Issuer ((example_claims (Some 2000) [])\<lparr>NotBefore := Some 1500\<rparr>) = keycloakURL \<and>
   validator_Now example_jwt_env < 2000 \<and> time_Now example_jwt_env < 2000 \<and>
   Audience ((example_claims (Some 2000) [])\<lparr>NotBefore := Some 1500\<rparr>) = [] \<and>
   verifyToken example_jwt_env example_publicKeys ''not-yet-valid'' =
     Inl (FailedToParseToken (ErrTokenInvalidClaims [ErrTokenNotValidYet]))"
  by (simp add: verifyToken_def ParseWithClaims_def keyFunc_def example_parse_simps
      example_ParseUnverified_def example_token_def example_publicKeys_def example_Verify_def
      example_key_def is_SigningMethodRSA_def example_claims_def Validate_def
      verifyExpiresAt_def verifyNotBefore_def)

subsection \<open>The introspection client and its gate\<close>

lemma extractBearerToken_ok:
  "extractBearerToken c = (c1, token, True) \<Longrightarrow> c1 = c"
  by (auto simp: extractBearerToken_def Let_def split: if_splits)

lemma introspectToken_inactive:
  assumes "NewRequest env ''POST'' keycloakIntrospectURL (introspection_form token) = Inr req0"
    and "client_Do env (Header_Set ''Content-Type'' ''application/x-www-form-urlencoded'' req0) = Inr resp"
    and "StatusCode resp = StatusOK"
    and "Body resp = Inr b"
    and "Unmarshal_Introspection env b = Inr r"
  shows "introspectToken env token = Inr r"
  using assms by (simp add: introspectToken_def)


text \<open>
  Claim C5. For every request from which a token is extracted and whose introspection
  call is answered with status 200 and a body that decodes to a response with
  \<^verbatim>\<open>active\<close> false: \<^verbatim>\<open>introspectToken\<close> returns that response and no error, and the
  introspection gate answers with status 401, aborts, and does not hand the request on to
  the downstream handler.
\<close>

theorem introspection_inactive_rejected:
  assumes "extractBearerToken c = (c1, token, True)"
    and "\<not> next_called c"
    and "NewRequest env ''POST'' keycloakIntrospectURL (introspection_form token) = Inr req0"
    and "client_Do env (Header_Set ''Content-Type'' ''application/x-www-form-urlencoded'' req0) = Inr resp"
    and "StatusCode resp = StatusOK"
    and "Body resp = Inr b"
    and "Unmarshal_Introspection env b = Inr r"
    and "\<not> Active r"
  shows "introspectToken env token = Inr r \<and>
         TokenIntrospectionMiddleware env c = Abort (JSON StatusUnauthorized inactive_rejection c) \<and>
         written_status (TokenIntrospectionMiddleware env c) = Some 401 \<and>
         \<not> proceeds (TokenIntrospectionMiddleware env c)"
proof -
  have i: "introspectToken env token = Inr r"
    using assms(3-7) by (rule introspectToken_inactive)
  have c1: "c1 = c" using assms(1) by (rule extractBearerToken_ok)
  have m: "TokenIntrospectionMiddleware env c = Abort (JSON StatusUnauthorized inactive_rejection c)"
    using assms(1,8) i c1 by (simp add: TokenIntrospectionMiddleware_def)
  show ?thesis
    using i m assms(2) by (simp add: Abort_def JSON_def proceeds_def StatusUnauthorized_def)
qed


lemma example_extract:
  "extractBearerToken (new_context (Some ''Bearer good'')) =
     (new_context (Some ''Bearer good''), ''good'', True)"
  by (simp add: extractBearerToken_def GetHeader_Authorization_def new_context_def)

lemma example_introspect_env_simps:
  "NewRequest (example_introspect_env a) = example_NewRequest"
  "client_Do (example_introspect_env a) = (\<lambda>req. a)"
  "Unmarshal_Introspection (example_introspect_env a) = example_Unmarshal_Introspection"
  by (simp_all add: example_introspect_env_def)

theorem introspection_inactive_rejected_witness:
  "introspectToken (example_introspect_env (Inr \<lparr>StatusCode = 200, Body = Inr ''inactive''\<rparr>)) ''good'' =
     Inr (example_IntrospectionResponse False) \<and>
   written_status (TokenIntrospectionMiddleware
     (example_introspect_env (Inr \<lparr>StatusCode = 200, Body = Inr ''inactive''\<rparr>))
     (new_context (Some ''Bearer good''))) = Some 401 \<and>
   \<not> proceeds (TokenIntrospectionMiddleware
     (example_introspect_env (Inr \<lparr>StatusCode = 200, Body = Inr ''inactive''\<rparr>))
     (new_context (Some ''Bearer good'')))"
proof -
  let ?resp = "\<lparr>StatusCode = 200, Body = Inr ''inactive''\<rparr>"
  let ?env = "example_introspect_env (Inr ?resp)"
  have n: "\<not> next_called (new_context (Some ''Bearer good''))"
    by (simp add: new_context_def)
  have r: "NewRequest ?env ''POST'' keycloakIntrospectURL (introspection_form ''good'') =
      Inr \<lparr>req_Method = ''POST'', req_URL = keycloakIntrospectURL,
        req_Form = introspection_form ''good'', req_Header = []\<rparr>"
    by (simp add: example_introspect_env_simps example_NewRequest_def)
  have d: "client_Do ?env req = Inr ?resp" for req
    by (simp add: example_introspect_env_simps)
  have s: "StatusCode ?resp = StatusOK" by (simp add: StatusOK_def)
  have b: "Body ?resp = Inr ''inactive''" by simp
  have u: "Unmarshal_Introspection ?env ''inactive'' = Inr (example_IntrospectionResponse False)"
    by (simp add: example_introspect_env_simps example_Unmarshal_Introspection_def)
  have a: "\<not> Active (example_IntrospectionResponse False)"
    by (simp add: example_IntrospectionResponse_def)
  from introspection_inactive_rejected [OF example_extract n r d s b u a]
  show ?thesis by blast
qed


subsection \<open>Loading the key set\<close>

lemma GetKeycloakPublicKey_loop_all:
  "map (jwkToRSAPublicKey env) keys = map Inr pubs \<Longrightarrow>
   GetKeycloakPublicKey_loop env keys m = (None, m ++ map_of (rev (zip (map Kid keys) pubs)))"
proof (induction keys arbitrary: pubs m)
  case Nil
  then show ?case by simp
next
  case (Cons key keys)
  then obtain p ps where pubs: "pubs = p # ps" and p: "jwkToRSAPublicKey env key = Inr p"
    and ps: "map (jwkToRSAPublicKey env) keys = map Inr ps"
    by (cases pubs) auto
  have "GetKeycloakPublicKey_loop env (key # keys) m =
      GetKeycloakPublicKey_loop env keys (m(Kid key \<mapsto> p))"
    using p by simp
  also have "\<dots> = (None, m(Kid key \<mapsto> p) ++ map_of (rev (zip (map Kid keys) ps)))"
    by (rule Cons.IH [OF ps])
  also have "m(Kid key \<mapsto> p) ++ map_of (rev (zip (map Kid keys) ps)) =
      m ++ map_of (rev (zip (map Kid (key # keys)) pubs))"
    unfolding pubs by (rule ext) (simp add: map_add_def split: option.splits)
  finally show ?case .
qed

lemma GetKeycloakPublicKey_loop_stops:
  "map (jwkToRSAPublicKey env) good = map Inr pubs \<Longrightarrow>
   jwkToRSAPublicKey env bad = Inl err \<Longrightarrow>
   GetKeycloakPublicKey_loop env (good @ bad # rest) m =
     (Some (FailedToConvert err), m ++ map_of (rev (zip (map Kid good) pubs)))"
proof (induction good arbitrary: pubs m)
  case Nil
  then show ?case by simp
next
  case (Cons key keys)
  then obtain p ps where pubs: "pubs = p # ps" and p: "jwkToRSAPublicKey env key = Inr p"
    and ps: "map (jwkToRSAPublicKey env) keys = map Inr ps"
    by (cases pubs) auto
  have "GetKeycloakPublicKey_loop env ((key # keys) @ bad # rest) m =
      GetKeycloakPublicKey_loop env (keys @ bad # rest) (m(Kid key \<mapsto> p))"
    using p by simp
  also have "\<dots> = (Some (FailedToConvert err),
      m(Kid key \<mapsto> p) ++ map_of (rev (zip (map Kid keys) ps)))"
    by (rule Cons.IH [OF ps Cons.prems(2)])
  also have "m(Kid key \<mapsto> p) ++ map_of (rev (zip (map Kid keys) ps)) =
      m ++ map_of (rev (zip (map Kid (key # keys)) pubs))"
    unfolding pubs by (rule ext) (simp add: map_add_def split: option.splits)
  finally show ?case .
qed

text \<open>
  Claim C7, as amended. When the fetch of the key-set document fails,
  \<^verbatim>\<open>GetKeycloakPublicKey\<close> returns the error and leaves the key mapping as it was. When
  the fetch succeeds and every key record converts, it returns no error and the mapping
  afterwards holds exactly the converted keys under their key identifiers (a later record
  overriding an earlier one with the same identifier). When the fetch succeeds and a key
  record does not convert, it returns the error, and the mapping afterwards holds the keys
  of the records before that one: the previous mapping is not kept.
\<close>

theorem GetKeycloakPublicKey_outcomes:
  "(fetchJWKS env = Inl ferr \<longrightarrow>
      GetKeycloakPublicKey env publicKeys = (Some (FailedToFetch ferr), publicKeys)) \<and>
   (fetchJWKS env = Inr jwks \<and>
      map (jwkToRSAPublicKey env) (jwks_Keys jwks) = map Inr pubs \<longrightarrow>
      GetKeycloakPublicKey env publicKeys =
        (None, map_of (rev (zip (map Kid (jwks_Keys jwks)) pubs)))) \<and>
   (fetchJWKS env = Inr jwks \<and> jwks_Keys jwks = good @ bad # rest \<and>
      map (jwkToRSAPublicKey env) good = map Inr gpubs \<and>
      jwkToRSAPublicKey env bad = Inl cerr \<longrightarrow>
      GetKeycloakPublicKey env publicKeys =
        (Some (FailedToConvert cerr), map_of (rev (zip (map Kid good) gpubs))))"
  by (simp add: GetKeycloakPublicKey_def GetKeycloakPublicKey_loop_all
      GetKeycloakPublicKey_loop_stops)

lemma example_jwks_env_simps:
  "http_Get (example_jwks_env a ks) = (\<lambda>url. a)"
  "Unmarshal_JWKS (example_jwks_env a ks) = (\<lambda>b. Inr \<lparr>jwks_Keys = ks\<rparr>)"
  "DecodeString (example_jwks_env a ks) = example_DecodeString"
  by (simp_all add: example_jwks_env_def)

lemma example_fetchJWKS:
  "fetchJWKS (example_jwks_env (Inr \<lparr>StatusCode = 200, Body = Inr ''jwks''\<rparr>) ks) =
     Inr \<lparr>jwks_Keys = ks\<rparr>"
  "fetchJWKS (example_jwks_env (Inl ''connection refused'') ks) =
     Inl (FailedToFetchJWKS ''connection refused'')"
  by (simp_all add: fetchJWKS_def example_jwks_env_simps StatusOK_def)

lemma example_jwkToRSAPublicKey:
  "jwkToRSAPublicKey (example_jwks_env a ks) (example_JWK kid ''IQ'') =
     Inr \<lparr>pub_N = SetBytes [33], pub_E = Int64 (SetBytes [1, 0, 1])\<rparr>"
  "jwkToRSAPublicKey (example_jwks_env a ks) (example_JWK kid ''Nw'') =
     Inr \<lparr>pub_N = SetBytes [55], pub_E = Int64 (SetBytes [1, 0, 1])\<rparr>"
  "jwkToRSAPublicKey (example_jwks_env a ks) (example_JWK kid ''!!'') =
     Inl (FailedToDecodeModulus ''illegal base64 data at input byte 0'')"
  by (simp_all add: jwkToRSAPublicKey_def example_jwks_env_simps example_JWK_def
      example_DecodeString_def)


text \<open>
  Claim C7 as stated fails: with a cached key \<open>k1\<close> and a fetched document whose first
  record \<open>k2\<close> converts and whose second does not, \<^verbatim>\<open>GetKeycloakPublicKey\<close> returns an
  error, and the mapping has lost \<open>k1\<close> and gained \<open>k2\<close>.
\<close>

theorem GetKeycloakPublicKey_partial_counterexample:
  "fst (GetKeycloakPublicKey
      (example_jwks_env (Inr \<lparr>StatusCode = 200, Body = Inr ''jwks''\<rparr>)
         [example_JWK ''k2'' ''Nw'', example_JWK ''k3'' ''!!''])
      example_publicKeys) =
     Some (FailedToConvert (FailedToDecodeModulus ''illegal base64 data at input byte 0'')) \<and>
   example_publicKeys ''k1'' \<noteq> None \<and> example_publicKeys ''k2'' = None \<and>
   snd (GetKeycloakPublicKey
      (example_jwks_env (Inr \<lparr>StatusCode = 200, Body = Inr ''jwks''\<rparr>)
         [example_JWK ''k2'' ''Nw'', example_JWK ''k3'' ''!!''])
      example_publicKeys) ''k1'' = None \<and>
   snd (GetKeycloakPublicKey
      (example_jwks_env (Inr \<lparr>StatusCode = 200, Body = Inr ''jwks''\<rparr>)
         [example_JWK ''k2'' ''Nw'', example_JWK ''k3'' ''!!''])
      example_publicKeys) ''k2'' \<noteq> None"
proof -
  have k: "Kid (example_JWK kid n) = kid" for kid n by (simp add: example_JWK_def)
  show ?thesis
    by (simp add: GetKeycloakPublicKey_def example_fetchJWKS example_jwkToRSAPublicKey
        example_publicKeys_def k)
qed

theorem GetKeycloakPublicKey_outcomes_witness:
  "GetKeycloakPublicKey (example_jwks_env (Inl ''connection refused'') []) example_publicKeys =
     (Some (FailedToFetch (FailedToFetchJWKS ''connection refused'')), example_publicKeys) \<and>
   GetKeycloakPublicKey
      (example_jwks_env (Inr \<lparr>StatusCode = 200, Body = Inr ''jwks''\<rparr>)
         [example_JWK ''k1'' ''IQ'', example_JWK ''k2'' ''Nw''])
      example_publicKeys =
     (None, [''k1'' \<mapsto> \<lparr>pub_N = 33, pub_E = 65537\<rparr>, ''k2'' \<mapsto> \<lparr>pub_N = 55, pub_E = 65537\<rparr>]) \<and>
   GetKeycloakPublicKey
      (example_jwks_env (Inr \<lparr>StatusCode = 200, Body = Inr ''jwks''\<rparr>)
         [example_JWK ''k2'' ''Nw'', example_JWK ''k3'' ''!!''])
      example_publicKeys =
     (Some (FailedToConvert (FailedToDecodeModulus ''illegal base64 data at input byte 0'')),
      [''k2'' \<mapsto> \<lparr>pub_N = 55, pub_E = 65537\<rparr>])"
proof -
  let ?ok = "Inr \<lparr>StatusCode = 200, Body = Inr ''jwks''\<rparr> :: string + http_Response"
  let ?e = "Int64 (SetBytes [1, 0, 1])"
  have v: "SetBytes [33] = 33" "SetBytes [55] = 55" "?e = 65537"
    by (simp_all add: SetBytes_def Int64_def)
  have a: "map (jwkToRSAPublicKey (example_jwks_env ?ok ks))
      [example_JWK ''k1'' ''IQ'', example_JWK ''k2'' ''Nw''] =
      map Inr [\<lparr>pub_N = 33, pub_E = 65537\<rparr>, \<lparr>pub_N = 55, pub_E = 65537\<rparr>]" for ks
    by (simp add: example_jwkToRSAPublicKey v)
  have b: "map (jwkToRSAPublicKey (example_jwks_env ?ok ks)) [example_JWK ''k2'' ''Nw''] =
      map Inr [\<lparr>pub_N = 55, pub_E = 65537\<rparr>]" for ks
    by (simp add: example_jwkToRSAPublicKey v)
  have k: "Kid (example_JWK kid n) = kid" for kid n by (simp add: example_JWK_def)
  show ?thesis
    using
      GetKeycloakPublicKey_outcomes [of "example_jwks_env (Inl ''connection refused'') []"
        "FailedToFetchJWKS ''connection refused''" example_publicKeys]
      GetKeycloakPublicKey_outcomes [of
        "example_jwks_env ?ok [example_JWK ''k1'' ''IQ'', example_JWK ''k2'' ''Nw'']" _
        example_publicKeys "\<lparr>jwks_Keys = [example_JWK ''k1'' ''IQ'', example_JWK ''k2'' ''Nw'']\<rparr>"
        "[\<lparr>pub_N = 33, pub_E = 65537\<rparr>, \<lparr>pub_N = 55, pub_E = 65537\<rparr>]"]
      GetKeycloakPublicKey_outcomes [of
        "example_jwks_env ?ok [example_JWK ''k2'' ''Nw'', example_JWK ''k3'' ''!!'']" _
        example_publicKeys "\<lparr>jwks_Keys = [example_JWK ''k2'' ''Nw'', example_JWK ''k3'' ''!!'']\<rparr>"
        _ "[example_JWK ''k2'' ''Nw'']" "example_JWK ''k3'' ''!!''" "[]"
        "[\<lparr>pub_N = 55, pub_E = 65537\<rparr>]"
        "FailedToDecodeModulus ''illegal base64 data at input byte 0''"]
    by (simp add: example_fetchJWKS a b k example_jwkToRSAPublicKey v)
qed

subsection \<open>The two gates\<close>

lemma extractBearerToken_result:
  "(\<exists>token. extractBearerToken c = (c, token, True)) \<or>
   (\<exists>obj. extractBearerToken c = (Abort (JSON StatusUnauthorized obj c), [], False) \<and>
      (obj = missing_header_response \<or> obj = malformed_header_response))"
  by (auto simp: extractBearerToken_def Let_def)

lemma context_updates [simp]:
  "Keys (Abort c) = Keys c" "Keys (JSON code obj c) = Keys c" "Keys (Next c) = Keys c"
  "Keys (Set_key k v c) = (Keys c)(k \<mapsto> v)"
  "next_called (Abort c) = next_called c" "next_called (JSON code obj c) = next_called c"
  "next_called (Next c) = True" "next_called (Set_key k v c) = next_called c"
  "aborted (Abort c) = True" "aborted (JSON code obj c) = aborted c"
  "aborted (Next c) = aborted c" "aborted (Set_key k v c) = aborted c"
  "written_status (Abort c) = written_status c" "written_status (JSON code obj c) = Some code"
  "written_body (Abort c) = written_body c" "written_body (JSON code obj c) = obj"
  by (simp_all add: Abort_def JSON_def Next_def Set_key_def)

lemma JWTAuthMiddleware_result:
  "(\<exists>token claims. extractBearerToken c = (c, token, True) \<and>
      verifyToken env publicKeys token = Inr claims \<and>
      JWTAuthMiddleware env publicKeys c =
        Next (Set_key ''email'' (Email claims) (Set_key ''user_id'' (Subject claims) c))) \<or>
   (\<exists>token err. extractBearerToken c = (c, token, True) \<and>
      verifyToken env publicKeys token = Inl err \<and>
      JWTAuthMiddleware env publicKeys c =
        Abort (JSON StatusUnauthorized (jwt_rejection err) c)) \<or>
   (\<exists>obj. snd (snd (extractBearerToken c)) = False \<and>
      (obj = missing_header_response \<or> obj = malformed_header_response) \<and>
      JWTAuthMiddleware env publicKeys c = Abort (JSON StatusUnauthorized obj c))"
proof -
  consider (ok) token where "extractBearerToken c = (c, token, True)"
    | (rejected) obj where
        "extractBearerToken c = (Abort (JSON StatusUnauthorized obj c), [], False)"
        "obj = missing_header_response \<or> obj = malformed_header_response"
    using extractBearerToken_result [of c] by blast
  then show ?thesis
  proof cases
    case (ok token)
    then show ?thesis
      by (cases "verifyToken env publicKeys token") (simp_all add: JWTAuthMiddleware_def)
  next
    case (rejected obj)
    then show ?thesis by (auto simp: JWTAuthMiddleware_def)
  qed
qed

lemma TokenIntrospectionMiddleware_result:
  "(\<exists>token r. extractBearerToken c = (c, token, True) \<and>
      introspectToken env token = Inr r \<and> Active r \<and>
      TokenIntrospectionMiddleware env c =
        Next (Set_key ''email'' (IR_Email r) (Set_key ''user_id'' (Sub r) c))) \<or>
   (\<exists>token r. extractBearerToken c = (c, token, True) \<and>
      introspectToken env token = Inr r \<and> \<not> Active r \<and>
      TokenIntrospectionMiddleware env c =
        Abort (JSON StatusUnauthorized inactive_rejection c)) \<or>
   (\<exists>token err. extractBearerToken c = (c, token, True) \<and>
      introspectToken env token = Inl err \<and>
      TokenIntrospectionMiddleware env c =
        Abort (JSON StatusInternalServerError (introspection_failure err) c)) \<or>
   (\<exists>obj. snd (snd (extractBearerToken c)) = False \<and>
      (obj = missing_header_response \<or> obj = malformed_header_response) \<and>
      TokenIntrospectionMiddleware env c = Abort (JSON StatusUnauthorized obj c))"
proof -
  consider (ok) token where "extractBearerToken c = (c, token, True)"
    | (rejected) obj where
        "extractBearerToken c = (Abort (JSON StatusUnauthorized obj c), [], False)"
        "obj = missing_header_response \<or> obj = malformed_header_response"
    using extractBearerToken_result [of c] by blast
  then show ?thesis
  proof cases
    case e: (ok token)
    show ?thesis
    proof (cases "introspectToken env token")
      case (Inl err)
      with e show ?thesis by (simp add: TokenIntrospectionMiddleware_def)
    next
      case (Inr r)
      with e show ?thesis by (cases "Active r") (simp_all add: TokenIntrospectionMiddleware_def)
    qed
  next
    case (rejected obj)
    then show ?thesis by (auto simp: TokenIntrospectionMiddleware_def)
  qed
qed

text \<open>
  Claim C8. For every request context that carries no identity attribute and has not been
  handed on yet, and for either gate: after the gate, the identity attributes
  \<^verbatim>\<open>user_id\<close> and \<^verbatim>\<open>email\<close> are stored in the context if and only if the gate lets
  the request proceed to the downstream handler. When it does, a token was extracted and
  verified (or introspected as active), and the store is the one of the request with
  \<^verbatim>\<open>user_id\<close> set to the subject and \<^verbatim>\<open>email\<close> to the email of the verified claims
  (of the introspection response). When it does not, neither attribute is set and the
  store is unchanged.
\<close>

theorem identity_iff_proceeds:
  assumes "no_identity c" and "\<not> next_called c"
  shows "(identity_stored (JWTAuthMiddleware jenv publicKeys c) \<longleftrightarrow>
            proceeds (JWTAuthMiddleware jenv publicKeys c)) \<and>
         (\<not> proceeds (JWTAuthMiddleware jenv publicKeys c) \<longrightarrow>
            no_identity (JWTAuthMiddleware jenv publicKeys c) \<and>
            Keys (JWTAuthMiddleware jenv publicKeys c) = Keys c) \<and>
         (proceeds (JWTAuthMiddleware jenv publicKeys c) \<longrightarrow>
            (\<exists>token claims. extractBearerToken c = (c, token, True) \<and>
               verifyToken jenv publicKeys token = Inr claims \<and>
               Keys (JWTAuthMiddleware jenv publicKeys c) =
                 (Keys c)(''user_id'' \<mapsto> Subject claims, ''email'' \<mapsto> Email claims))) \<and>
         (identity_stored (TokenIntrospectionMiddleware ienv c) \<longleftrightarrow>
            proceeds (TokenIntrospectionMiddleware ienv c)) \<and>
         (\<not> proceeds (TokenIntrospectionMiddleware ienv c) \<longrightarrow>
            no_identity (TokenIntrospectionMiddleware ienv c) \<and>
            Keys (TokenIntrospectionMiddleware ienv c) = Keys c) \<and>
         (proceeds (TokenIntrospectionMiddleware ienv c) \<longrightarrow>
            (\<exists>token r. extractBearerToken c = (c, token, True) \<and>
               introspectToken ienv token = Inr r \<and> Active r \<and>
               Keys (TokenIntrospectionMiddleware ienv c) =
                 (Keys c)(''user_id'' \<mapsto> Sub r, ''email'' \<mapsto> IR_Email r)))"
proof -
  have j: "(identity_stored (JWTAuthMiddleware jenv publicKeys c) \<longleftrightarrow>
            proceeds (JWTAuthMiddleware jenv publicKeys c)) \<and>
         (\<not> proceeds (JWTAuthMiddleware jenv publicKeys c) \<longrightarrow>
            no_identity (JWTAuthMiddleware jenv publicKeys c) \<and>
            Keys (JWTAuthMiddleware jenv publicKeys c) = Keys c) \<and>
         (proceeds (JWTAuthMiddleware jenv publicKeys c) \<longrightarrow>
            (\<exists>token claims. extractBearerToken c = (c, token, True) \<and>
               verifyToken jenv publicKeys token = Inr claims \<and>
               Keys (JWTAuthMiddleware jenv publicKeys c) =
                 (Keys c)(''user_id'' \<mapsto> Subject claims, ''email'' \<mapsto> Email claims)))"
    using assms JWTAuthMiddleware_result [of c jenv publicKeys]
    by (elim disjE exE conjE) (simp_all add: identity_stored_def no_identity_def proceeds_def)
  have i: "(identity_stored (TokenIntrospectionMiddleware ienv c) \<longleftrightarrow>
            proceeds (TokenIntrospectionMiddleware ienv c)) \<and>
         (\<not> proceeds (TokenIntrospectionMiddleware ienv c) \<longrightarrow>
            no_identity (TokenIntrospectionMiddleware ienv c) \<and>
            Keys (TokenIntrospectionMiddleware ienv c) = Keys c) \<and>
         (proceeds (TokenIntrospectionMiddleware ienv c) \<longrightarrow>
            (\<exists>token r. extractBearerToken c = (c, token, True) \<and>
               introspectToken ienv token = Inr r \<and> Active r \<and>
               Keys (TokenIntrospectionMiddleware ienv c) =
                 (Keys c)(''user_id'' \<mapsto> Sub r, ''email'' \<mapsto> IR_Email r)))"
    using assms TokenIntrospectionMiddleware_result [of c ienv]
    by (elim disjE exE conjE) (simp_all add: identity_stored_def no_identity_def proceeds_def)
  from j i show ?thesis by blast
qed

text \<open>
  Claim C9, as amended. Every rejection response of either gate carries the \<^verbatim>\<open>error\<close>
  field, and carries the \<^verbatim>\<open>method\<close> field exactly when a token was extracted from
  the request. After a token was extracted, the JWT gate answers 401 with the fields
  \<^verbatim>\<open>error\<close>, \<^verbatim>\<open>detail\<close> (the text of the verification error) and \<^verbatim>\<open>method\<close>,
  which reads \<^verbatim>\<open>JWT Validation\<close>; the introspection gate answers 500 with
  \<^verbatim>\<open>error\<close>, \<^verbatim>\<open>detail\<close> (the text of the introspection error) and \<^verbatim>\<open>method\<close>, or
  401 with \<^verbatim>\<open>error\<close> and \<^verbatim>\<open>method\<close> for an inactive token, and its \<^verbatim>\<open>method\<close>
  reads \<^verbatim>\<open>Token Introspection\<close>. When no token was extracted, either gate answers 401
  with one of the two responses of the bearer extractor, which have the \<^verbatim>\<open>error\<close>
  field only.
\<close>

theorem rejection_fields:
  assumes "\<not> next_called c"
  shows "(\<not> proceeds (JWTAuthMiddleware jenv publicKeys c) \<longrightarrow>
            has_field (JWTAuthMiddleware jenv publicKeys c) ''error'' \<and>
            (has_field (JWTAuthMiddleware jenv publicKeys c) ''method'' \<longleftrightarrow>
               snd (snd (extractBearerToken c))) \<and>
            written_status (JWTAuthMiddleware jenv publicKeys c) = Some 401 \<and>
            (snd (snd (extractBearerToken c)) \<longrightarrow>
               (\<exists>token err. extractBearerToken c = (c, token, True) \<and>
                  verifyToken jenv publicKeys token = Inl err \<and>
                  written_body (JWTAuthMiddleware jenv publicKeys c) =
                    [(''error'', Text ''Invalid or expired JWT token''),
                     (''detail'', VerifyErrorText err),
                     (''method'', Text ''JWT Validation'')])) \<and>
            (\<not> snd (snd (extractBearerToken c)) \<longrightarrow>
               written_body (JWTAuthMiddleware jenv publicKeys c) =
                 [(''error'', Text ''Authorization header required'')] \<or>
               written_body (JWTAuthMiddleware jenv publicKeys c) =
                 [(''error'',
                   Text ''Invalid authorization header format. Expected: Bearer <token>'')])) \<and>
         (\<not> proceeds (TokenIntrospectionMiddleware ienv c) \<longrightarrow>
            has_field (TokenIntrospectionMiddleware ienv c) ''error'' \<and>
            (has_field (TokenIntrospectionMiddleware ienv c) ''method'' \<longleftrightarrow>
               snd (snd (extractBearerToken c))) \<and>
            (snd (snd (extractBearerToken c)) \<longrightarrow>
               (\<exists>token err. extractBearerToken c = (c, token, True) \<and>
                  introspectToken ienv token = Inl err \<and>
                  written_status (TokenIntrospectionMiddleware ienv c) = Some 500 \<and>
                  written_body (TokenIntrospectionMiddleware ienv c) =
                    [(''error'', Text ''Failed to introspect token''),
                     (''detail'', IntrospectErrorText err),
                     (''method'', Text ''Token Introspection'')]) \<or>
               (\<exists>token r. extractBearerToken c = (c, token, True) \<and>
                  introspectToken ienv token = Inr r \<and> \<not> Active r \<and>
                  written_status (TokenIntrospectionMiddleware ienv c) = Some 401 \<and>
                  written_body (TokenIntrospectionMiddleware ienv c) =
                    [(''error'', Text ''Token is not active or has been revoked''),
                     (''method'', Text ''Token Introspection'')])) \<and>
            (\<not> snd (snd (extractBearerToken c)) \<longrightarrow>
               written_status (TokenIntrospectionMiddleware ienv c) = Some 401 \<and>
               (written_body (TokenIntrospectionMiddleware ienv c) =
                  [(''error'', Text ''Authorization header required'')] \<or>
                written_body (TokenIntrospectionMiddleware ienv c) =
                  [(''error'',
                    Text ''Invalid authorization header format. Expected: Bearer <token>'')])))"
proof -
  have j: "\<not> proceeds (JWTAuthMiddleware jenv publicKeys c) \<longrightarrow>
            has_field (JWTAuthMiddleware jenv publicKeys c) ''error'' \<and>
            (has_field (JWTAuthMiddleware jenv publicKeys c) ''method'' \<longleftrightarrow>
               snd (snd (extractBearerToken c))) \<and>
            written_status (JWTAuthMiddleware jenv publicKeys c) = Some 401 \<and>
            (snd (snd (extractBearerToken c)) \<longrightarrow>
               (\<exists>token err. extractBearerToken c = (c, token, True) \<and>
                  verifyToken jenv publicKeys token = Inl err \<and>
                  written_body (JWTAuthMiddleware jenv publicKeys c) =
                    [(''error'', Text ''Invalid or expired JWT token''),
                     (''detail'', VerifyErrorText err),
                     (''method'', Text ''JWT Validation'')])) \<and>
            (\<not> snd (snd (extractBearerToken c)) \<longrightarrow>
               written_body (JWTAuthMiddleware jenv publicKeys c) =
                 [(''error'', Text ''Authorization header required'')] \<or>
               written_body (JWTAuthMiddleware jenv publicKeys c) =
                 [(''error'',
                   Text ''Invalid authorization header format. Expected: Bearer <token>'')])"
    using assms JWTAuthMiddleware_result [of c jenv publicKeys]
    by (elim disjE exE conjE)
       (simp_all add: has_field_def proceeds_def jwt_rejection_def StatusUnauthorized_def
          missing_header_response_def malformed_header_response_def)
  have i: "\<not> proceeds (TokenIntrospectionMiddleware ienv c) \<longrightarrow>
            has_field (TokenIntrospectionMiddleware ienv c) ''error'' \<and>
            (has_field (TokenIntrospectionMiddleware ienv c) ''method'' \<longleftrightarrow>
               snd (snd (extractBearerToken c))) \<and>
            (snd (snd (extractBearerToken c)) \<longrightarrow>
               (\<exists>token err. extractBearerToken c = (c, token, True) \<and>
                  introspectToken ienv token = Inl err \<and>
                  written_status (TokenIntrospectionMiddleware ienv c) = Some 500 \<and>
                  written_body (TokenIntrospectionMiddleware ienv c) =
                    [(''error'', Text ''Failed to introspect token''),
                     (''detail'', IntrospectErrorText err),
                     (''method'', Text ''Token Introspection'')]) \<or>
               (\<exists>token r. extractBearerToken c = (c, token, True) \<and>
                  introspectToken ienv token = Inr r \<and> \<not> Active r \<and>
                  written_status (TokenIntrospectionMiddleware ienv c) = Some 401 \<and>
                  written_body (TokenIntrospectionMiddleware ienv c) =
                    [(''error'', Text ''Token is not active or has been revoked''),
                     (''method'', Text ''Token Introspection'')])) \<and>
            (\<not> snd (snd (extractBearerToken c)) \<longrightarrow>
               written_status (TokenIntrospectionMiddleware ienv c) = Some 401 \<and>
               (written_body (TokenIntrospectionMiddleware ienv c) =
                  [(''error'', Text ''Authorization header required'')] \<or>
                written_body (TokenIntrospectionMiddleware ienv c) =
                  [(''error'',
                    Text ''Invalid authorization header format. Expected: Bearer <token>'')]))"
    using assms TokenIntrospectionMiddleware_result [of c ienv]
    by (elim disjE exE conjE)
       (simp_all add: has_field_def proceeds_def introspection_failure_def
          inactive_rejection_def StatusUnauthorized_def StatusInternalServerError_def
          missing_header_response_def malformed_header_response_def)
  from j i show ?thesis by blast
qed

lemma example_verifyToken_good:
  "verifyToken example_jwt_env example_publicKeys ''good'' =
     Inr (example_claims (Some 2000) [''account''])"
  using example_ParseWithClaims [of "''good''"]
  by (simp add: verifyToken_def example_token_def example_claims_def example_parse_simps)

lemma example_verifyToken_forged:
  "verifyToken example_jwt_env example_publicKeys ''forged'' =
     Inl (FailedToParseToken ErrTokenSignatureInvalid)"
  by (simp add: verifyToken_def ParseWithClaims_def keyFunc_def example_parse_simps
      example_ParseUnverified_def example_token_def example_publicKeys_def example_Verify_def
      example_key_def is_SigningMethodRSA_def)

lemma example_extract_forged:
  "extractBearerToken (new_context (Some ''Bearer forged'')) =
     (new_context (Some ''Bearer forged''), ''forged'', True)"
  by (simp add: extractBearerToken_def GetHeader_Authorization_def new_context_def)

lemma example_extract_wrong_scheme:
  "extractBearerToken (new_context (Some ''Token abc'')) =
     (Abort (JSON StatusUnauthorized malformed_header_response (new_context (Some ''Token abc''))),
      [], False)"
  by (simp add: extractBearerToken_def GetHeader_Authorization_def new_context_def)

lemma example_extract_missing:
  "extractBearerToken (new_context None) =
     (Abort (JSON StatusUnauthorized missing_header_response (new_context None)), [], False)"
  by (simp add: extractBearerToken_def GetHeader_Authorization_def new_context_def)

lemma example_JWT_gate:
  "JWTAuthMiddleware example_jwt_env example_publicKeys (new_context (Some ''Bearer good'')) =
     Next (Set_key ''email'' ''alice@example.com''
       (Set_key ''user_id'' ''user-1'' (new_context (Some ''Bearer good''))))"
  "JWTAuthMiddleware example_jwt_env example_publicKeys (new_context (Some ''Bearer forged'')) =
     Abort (JSON StatusUnauthorized (jwt_rejection (FailedToParseToken ErrTokenSignatureInvalid))
       (new_context (Some ''Bearer forged'')))"
  "JWTAuthMiddleware example_jwt_env example_publicKeys (new_context (Some ''Token abc'')) =
     Abort (JSON StatusUnauthorized malformed_header_response (new_context (Some ''Token abc'')))"
  "JWTAuthMiddleware example_jwt_env example_publicKeys (new_context None) =
     Abort (JSON StatusUnauthorized missing_header_response (new_context None))"
  by (simp_all add: JWTAuthMiddleware_def example_extract example_extract_forged
      example_extract_wrong_scheme example_extract_missing example_verifyToken_good
      example_verifyToken_forged example_claims_def)

lemma example_introspectToken:
  "introspectToken (example_introspect_env (Inr \<lparr>StatusCode = 200, Body = Inr b\<rparr>)) token =
     (case example_Unmarshal_Introspection b of
        Inl err \<Rightarrow> Inl (FailedToParseResponse err) | Inr r \<Rightarrow> Inr r)"
  by (simp add: introspectToken_def example_introspect_env_simps example_NewRequest_def
      StatusOK_def)

lemma example_introspection_gate:
  "TokenIntrospectionMiddleware
     (example_introspect_env (Inr \<lparr>StatusCode = 200, Body = Inr ''active''\<rparr>))
     (new_context (Some ''Bearer good'')) =
     Next (Set_key ''email'' ''alice@example.com''
       (Set_key ''user_id'' ''user-1'' (new_context (Some ''Bearer good''))))"
  "TokenIntrospectionMiddleware
     (example_introspect_env (Inr \<lparr>StatusCode = 200, Body = Inr ''inactive''\<rparr>))
     (new_context (Some ''Bearer good'')) =
     Abort (JSON StatusUnauthorized inactive_rejection (new_context (Some ''Bearer good'')))"
  "TokenIntrospectionMiddleware env (new_context (Some ''Token abc'')) =
     Abort (JSON StatusUnauthorized malformed_header_response (new_context (Some ''Token abc'')))"
  by (simp_all add: TokenIntrospectionMiddleware_def example_extract
      example_extract_wrong_scheme example_introspectToken example_Unmarshal_Introspection_def
      example_IntrospectionResponse_def)

lemma new_context_fresh:
  "no_identity (new_context h)" "\<not> next_called (new_context h)"
  by (simp_all add: no_identity_def new_context_def)

theorem identity_iff_proceeds_witness:
  "Keys (JWTAuthMiddleware example_jwt_env example_publicKeys
     (new_context (Some ''Bearer good''))) =
     [''user_id'' \<mapsto> ''user-1'', ''email'' \<mapsto> ''alice@example.com''] \<and>
   identity_stored (JWTAuthMiddleware example_jwt_env example_publicKeys
     (new_context (Some ''Bearer good''))) \<and>
   no_identity (JWTAuthMiddleware example_jwt_env example_publicKeys
     (new_context (Some ''Bearer forged''))) \<and>
   Keys (TokenIntrospectionMiddleware
     (example_introspect_env (Inr \<lparr>StatusCode = 200, Body = Inr ''active''\<rparr>))
     (new_context (Some ''Bearer good''))) =
     [''user_id'' \<mapsto> ''user-1'', ''email'' \<mapsto> ''alice@example.com''] \<and>
   identity_stored (TokenIntrospectionMiddleware
     (example_introspect_env (Inr \<lparr>StatusCode = 200, Body = Inr ''active''\<rparr>))
     (new_context (Some ''Bearer good''))) \<and>
   no_identity (TokenIntrospectionMiddleware
     (example_introspect_env (Inr \<lparr>StatusCode = 200, Body = Inr ''inactive''\<rparr>))
     (new_context (Some ''Bearer good'')))"
proof -
  let ?active = "example_introspect_env (Inr \<lparr>StatusCode = 200, Body = Inr ''active''\<rparr>)"
  let ?inactive = "example_introspect_env (Inr \<lparr>StatusCode = 200, Body = Inr ''inactive''\<rparr>)"
  let ?good = "new_context (Some ''Bearer good'')"
  note good = identity_iff_proceeds [OF new_context_fresh, of example_jwt_env example_publicKeys
      "Some ''Bearer good''" ?active]
  note forged = identity_iff_proceeds [OF new_context_fresh, of example_jwt_env
      example_publicKeys "Some ''Bearer forged''" ?active]
  note inactive = identity_iff_proceeds [OF new_context_fresh, of example_jwt_env
      example_publicKeys "Some ''Bearer good''" ?inactive]
  have a: "proceeds (JWTAuthMiddleware example_jwt_env example_publicKeys ?good)"
    by (simp add: example_JWT_gate proceeds_def)
  have b: "\<not> proceeds (JWTAuthMiddleware example_jwt_env example_publicKeys
      (new_context (Some ''Bearer forged'')))"
    by (simp add: example_JWT_gate proceeds_def new_context_fresh)
  have c: "proceeds (TokenIntrospectionMiddleware ?active ?good)"
    by (simp add: example_introspection_gate proceeds_def)
  have d: "\<not> proceeds (TokenIntrospectionMiddleware ?inactive ?good)"
    by (simp add: example_introspection_gate proceeds_def new_context_fresh)
  from good a obtain token claims where
    tj: "extractBearerToken ?good = (?good, token, True)"
    and cj: "verifyToken example_jwt_env example_publicKeys token = Inr claims"
    and kj: "Keys (JWTAuthMiddleware example_jwt_env example_publicKeys ?good) =
      (Keys ?good)(''user_id'' \<mapsto> Subject claims, ''email'' \<mapsto> Email claims)"
    by blast
  from tj have "token = ''good''" by (simp add: example_extract)
  with cj have "claims = example_claims (Some 2000) [''account'']"
    by (simp add: example_verifyToken_good)
  with kj have vj: "Keys (JWTAuthMiddleware example_jwt_env example_publicKeys ?good) =
      [''user_id'' \<mapsto> ''user-1'', ''email'' \<mapsto> ''alice@example.com'']"
    by (simp add: example_claims_def new_context_def)
  from good c obtain token r where
    ti: "extractBearerToken ?good = (?good, token, True)"
    and ri: "introspectToken ?active token = Inr r"
    and ki: "Keys (TokenIntrospectionMiddleware ?active ?good) =
      (Keys ?good)(''user_id'' \<mapsto> Sub r, ''email'' \<mapsto> IR_Email r)"
    by blast
  from ri have "r = example_IntrospectionResponse True"
    by (simp add: example_introspectToken example_Unmarshal_Introspection_def)
  with ki have vi: "Keys (TokenIntrospectionMiddleware ?active ?good) =
      [''user_id'' \<mapsto> ''user-1'', ''email'' \<mapsto> ''alice@example.com'']"
    by (simp add: example_IntrospectionResponse_def new_context_def)
  from good forged inactive a b c d vj vi show ?thesis by blast
qed

text \<open>
  Claim C9 as stated fails: for the header \<^verbatim>\<open>Token abc\<close> the JWT gate answers 401 with
  the extractor's response, which has the \<^verbatim>\<open>error\<close> field only and does not name the
  verification method.
\<close>

theorem rejection_method_counterexample:
  "\<not> proceeds (JWTAuthMiddleware example_jwt_env example_publicKeys
     (new_context (Some ''Token abc''))) \<and>
   written_status (JWTAuthMiddleware example_jwt_env example_publicKeys
     (new_context (Some ''Token abc''))) = Some 401 \<and>
   written_body (JWTAuthMiddleware example_jwt_env example_publicKeys
     (new_context (Some ''Token abc''))) =
     [(''error'', Text ''Invalid authorization header format. Expected: Bearer <token>'')] \<and>
   \<not> has_field (JWTAuthMiddleware example_jwt_env example_publicKeys
     (new_context (Some ''Token abc''))) ''method''"
  by (simp add: example_JWT_gate proceeds_def new_context_fresh has_field_def
      malformed_header_response_def StatusUnauthorized_def)

theorem rejection_fields_witness:
  "written_body (JWTAuthMiddleware example_jwt_env example_publicKeys
     (new_context (Some ''Bearer forged''))) =
     [(''error'', Text ''Invalid or expired JWT token''),
      (''detail'', VerifyErrorText (FailedToParseToken ErrTokenSignatureInvalid)),
      (''method'', Text ''JWT Validation'')] \<and>
   written_body (TokenIntrospectionMiddleware
     (example_introspect_env (Inr \<lparr>StatusCode = 200, Body = Inr ''inactive''\<rparr>))
     (new_context (Some ''Bearer good''))) =
     [(''error'', Text ''Token is not active or has been revoked''),
      (''method'', Text ''Token Introspection'')] \<and>
   has_field (JWTAuthMiddleware example_jwt_env example_publicKeys (new_context None)) ''error'' \<and>
   \<not> has_field (JWTAuthMiddleware example_jwt_env example_publicKeys (new_context None)) ''method''"
proof -
  let ?inactive = "example_introspect_env (Inr \<lparr>StatusCode = 200, Body = Inr ''inactive''\<rparr>)"
  let ?forged = "new_context (Some ''Bearer forged'')"
  let ?good = "new_context (Some ''Bearer good'')"
  note forged = rejection_fields [OF new_context_fresh(2), of example_jwt_env
      example_publicKeys "Some ''Bearer forged''" ?inactive]
  note good = rejection_fields [OF new_context_fresh(2), of example_jwt_env
      example_publicKeys "Some ''Bearer good''" ?inactive]
  note missing = rejection_fields [OF new_context_fresh(2), of example_jwt_env
      example_publicKeys None ?inactive]
  have b: "\<not> proceeds (JWTAuthMiddleware example_jwt_env example_publicKeys ?forged)"
    by (simp add: example_JWT_gate proceeds_def new_context_fresh)
  have d: "\<not> proceeds (TokenIntrospectionMiddleware ?inactive ?good)"
    by (simp add: example_introspection_gate proceeds_def new_context_fresh)
  have e: "\<not> proceeds (JWTAuthMiddleware example_jwt_env example_publicKeys (new_context None))"
    by (simp add: example_JWT_gate proceeds_def new_context_fresh)
  have ok: "snd (snd (extractBearerToken ?forged))" "snd (snd (extractBearerToken ?good))"
    "\<not> snd (snd (extractBearerToken (new_context None)))"
    by (simp_all add: example_extract example_extract_forged example_extract_missing)
  from forged b ok(1) obtain token err where
    tf: "extractBearerToken ?forged = (?forged, token, True)"
    and ef: "verifyToken example_jwt_env example_publicKeys token = Inl err"
    and bj: "written_body (JWTAuthMiddleware example_jwt_env example_publicKeys ?forged) =
      [(''error'', Text ''Invalid or expired JWT token''), (''detail'', VerifyErrorText err),
       (''method'', Text ''JWT Validation'')]"
    by blast
  from tf have "token = ''forged''" by (simp add: example_extract_forged)
  with ef have "err = FailedToParseToken ErrTokenSignatureInvalid"
    by (simp add: example_verifyToken_forged)
  with bj have one: "written_body (JWTAuthMiddleware example_jwt_env example_publicKeys ?forged) =
      [(''error'', Text ''Invalid or expired JWT token''),
       (''detail'', VerifyErrorText (FailedToParseToken ErrTokenSignatureInvalid)),
       (''method'', Text ''JWT Validation'')]"
    by simp
  have no_error: "introspectToken ?inactive token \<noteq> Inl err" for token err
    by (simp add: example_introspectToken example_Unmarshal_Introspection_def)
  from good d ok(2) no_error
  have two: "written_body (TokenIntrospectionMiddleware ?inactive ?good) =
      [(''error'', Text ''Token is not active or has been revoked''),
       (''method'', Text ''Token Introspection'')]"
    by blast
  from missing e ok(3)
  have three: "has_field (JWTAuthMiddleware example_jwt_env example_publicKeys (new_context None))
      ''error'' \<and>
    \<not> has_field (JWTAuthMiddleware example_jwt_env example_publicKeys (new_context None))
      ''method''"
    by blast
  from one two three show ?thesis by blast
qed

end
